theory Spec2Isabelle
  imports Main
begin

section \<open>The durable store (database/init.sql)\<close>

text \<open>
  Instants are milliseconds since the epoch. One request is served at one instant
  \<open>now\<close>: the value of \<open>new Date()\<close>, \<open>Date.now()\<close> and of the store's
  \<open>CURRENT_TIMESTAMP\<close> during that request.

  A table is the list of its rows; a row has the columns that the handlers read or
  write. The integer counters are created with their column defaults and are modelled
  as integers (a NULL counter is not modelled). The response time that requests\_log
  stores is a floating-point number and is left out. The texts of the JSON error
  messages are constructors of the type \<open>body\<close>, named after the messages.
\<close>

type_synonym instant = int

datatype usuario_estado = UActivo | USuspendido | UInactivo | UPendienteConfirmacion

datatype token_estado = TActivo | TRevocado | TExpirado | TSuspendido

datatype tipo_bloqueo = Temporal | Permanente | Escalado

record usuario =
  u_id :: nat
  u_nombre :: string
  u_email :: string
  u_rol :: string
  u_estado :: usuario_estado
  u_plan :: string

record api_token =
  at_id :: nat
  at_usuario_id :: nat
  at_token_hash :: string
  at_nombre :: string
  at_limite_requests_diario :: int
  at_requests_utilizados_hoy :: int
  at_estado :: token_estado
  at_fecha_expiracion :: "instant option"
  at_ultimo_uso :: "instant option"
  at_ip_ultimo_uso :: "string option"
  at_user_agent_ultimo_uso :: "string option"
  at_total_requests_historico :: int

record limits_usage_row =
  lu_usuario_id :: nat
  lu_fecha :: int
  lu_requests_count :: int

record security_event =
  se_ip_address :: string
  se_usuario_id :: "nat option"
  se_evento_tipo :: string
  se_severidad :: string
  se_endpoint :: string
  se_payload_sospechoso :: "string option"
  se_timestamp :: instant

record attack_attempt =
  aa_ip_address :: string
  aa_usuario_id :: "nat option"
  aa_attack_type :: string
  aa_severidad :: string
  aa_payload :: string
  aa_payload_hash :: string
  aa_endpoint :: string
  aa_metodo_http :: string
  aa_timestamp :: instant

record blocked_ip =
  b_ip_address :: string
  b_razon :: string
  b_tipo_bloqueo :: tipo_bloqueo
  b_bloqueado_hasta :: "instant option"
  b_intentos_fallidos :: int
  b_veces_bloqueado :: int

record request_log =
  rl_usuario_id :: nat
  rl_token_id :: nat
  rl_endpoint :: string
  rl_cedula_consultada :: string
  rl_status_code :: nat
  rl_ip_cliente :: string

text \<open>
  The state every handler reads and writes: the seven tables, and the list of calls made
  to the downstream service (token, ruc), which is how a hand-off is observed.
\<close>

record world =
  usuarios :: "usuario list"
  api_tokens :: "api_token list"
  limits_usage :: "limits_usage_row list"
  security_events :: "security_event list"
  attack_attempts :: "attack_attempt list"
  blocked_ips :: "blocked_ip list"
  requests_log :: "request_log list"
  python_calls :: "(string \<times> string) list"

text \<open>
  Every \<open>pool.query\<close> call site of the two source files has a name. A fault oracle says
  which of them reject for a reason the source text does not decide (the store is
  unreachable, a value is too long for its column): the \<open>await\<close> at a faulty site
  throws. What the text of a statement decides by itself, the columns it names and the
  literals it inserts, is checked against the schema below.
\<close>

datatype site =
    SelToken | UpdExpirado | SelUsage | UpdUltimoUso | InsSecurityEvent
  | InsAttack | SelRecentAttacks | UpsertBlocked | SelBlocked
  | JwtSelUsuario | InsApiToken
  | PubSelToken | PubInsTokenInvalido | PubInsLimite | PubUpdUso | PubInsRequestLog
  | PubCatchSelToken | PubCatchInsRequestLog

type_synonym faults = "site \<Rightarrow> bool"

definition no_faults :: faults where
  "no_faults = (\<lambda>s. False)"

subsection \<open>What the table security\_events accepts\<close>

definition security_events_columns :: "string list" where
  "security_events_columns =
     [''id'', ''ip_address'', ''usuario_id'', ''token_id'', ''evento_tipo'', ''severidad'',
      ''endpoint'', ''metodo_http'', ''payload_sospechoso'', ''user_agent'', ''referrer'',
      ''intentos_count'', ''resuelto'', ''notas_investigacion'', ''investigado_por'',
      ''timestamp'']"

definition evento_tipo_check :: "string list" where
  "evento_tipo_check =
     [''login_fallido'', ''token_invalido'', ''token_expirado'', ''rate_limit_excedido'',
      ''ip_sospechosa'', ''patron_anomalo'', ''multiple_tokens'']"

definition severidad_check :: "string list" where
  "severidad_check = [''baja'', ''media'', ''alta'', ''critica'']"

definition attack_type_check :: "string list" where
  "attack_type_check =
     [''sql_injection'', ''xss'', ''path_traversal'', ''command_injection'',
      ''malformed_input'', ''scanner_bot'', ''ddos_attempt'']"

text \<open>
  An INSERT names its columns. The statement is refused (None: the query throws) when
  it names a column the table does not have or a value a CHECK constraint excludes.
\<close>

definition insert_security_event :: "string list \<Rightarrow> security_event \<Rightarrow> world \<Rightarrow> world option" where
  "insert_security_event cols ev w =
     (if list_all (\<lambda>c. c \<in> set security_events_columns) cols
         \<and> se_evento_tipo ev \<in> set evento_tipo_check
         \<and> se_severidad ev \<in> set severidad_check
      then Some (w\<lparr>security_events := security_events w @ [ev]\<rparr>)
      else None)"

definition insert_attack_attempt :: "attack_attempt \<Rightarrow> world \<Rightarrow> world option" where
  "insert_attack_attempt a w =
     (if aa_attack_type a \<in> set attack_type_check \<and> aa_severidad a \<in> set severidad_check
      then Some (w\<lparr>attack_attempts := attack_attempts w @ [a]\<rparr>)
      else None)"

section \<open>Requests and responses\<close>

record user_ctx =
  uc_id :: nat
  uc_rol :: string

record request =
  req_ip :: string
  req_path :: string
  req_method :: string
  req_x_api_key :: "string option"
  req_user_agent :: "string option"
  req_authorization :: "string option"
  req_body_json :: string
  req_query_keys :: "string list"
  req_user :: "user_ctx option"

datatype body =
    ApiTokenRequerido
  | ApiTokenInvalidoORevocado
  | ApiTokenExpirado
  | LimiteDiarioDeRequestsExcedido int int
  | ErrorInternoDelServidor
  | SolicitudMalformadaDetectada
  | IpBloqueada string "instant option"
  | TokenDeAccesoRequerido
  | UsuarioNoEncontradoOInactivo
  | TokenInvalido
  | DatosInvalidos
  | TokenGeneradoExitosamente string nat
  | ErrorGenerandoToken
  | FormatoDeTokenInvalido
  | RucInvalido
  | TokenInvalidoOInactivo
  | LimiteDiarioExcedido int int
  | ConsultaData int int
  | DownstreamErrorData
  | ErrorInternoNoSePudoProcesar

datatype 'a outcome = Respond nat body | Next 'a

text \<open>A stage inside a try block: it goes on, it answers, or it throws.\<close>

datatype 'a step = Continue 'a | Finish nat body | Threw

section \<open>middleware/security.js\<close>

subsection \<open>logSecurityEvent\<close>

text \<open>The catch of logSecurityEvent swallows a rejected INSERT: the store is as it was.\<close>

definition logSecurityEvent ::
  "faults \<Rightarrow> instant \<Rightarrow> string \<Rightarrow> nat option \<Rightarrow> string \<Rightarrow> string \<Rightarrow> string \<Rightarrow> string option
     \<Rightarrow> world \<Rightarrow> world" where
  "logSecurityEvent flt now ip userId eventType severity endpoint payload w =
     (if flt InsSecurityEvent then w
      else case insert_security_event
             [''ip_address'', ''usuario_id'', ''evento_tipo'', ''severidad'', ''endpoint'',
              ''payload_sospechoso'', ''user_agent'', ''timestamp'']
             \<lparr>se_ip_address = ip, se_usuario_id = userId, se_evento_tipo = eventType,
              se_severidad = severity, se_endpoint = endpoint,
              se_payload_sospechoso = payload, se_timestamp = now\<rparr> w of
             None \<Rightarrow> w
           | Some w' \<Rightarrow> w')"

subsection \<open>checkBlockedIP\<close>

definition active_blocks :: "instant \<Rightarrow> string \<Rightarrow> world \<Rightarrow> blocked_ip list" where
  "active_blocks now ip w =
     filter (\<lambda>b. b_ip_address b = ip \<and>
                 (case b_bloqueado_hasta b of None \<Rightarrow> True | Some t \<Rightarrow> now < t))
       (blocked_ips w)"

definition checkBlockedIP :: "faults \<Rightarrow> instant \<Rightarrow> request \<Rightarrow> world \<Rightarrow> unit outcome \<times> world" where
  "checkBlockedIP flt now req w =
     (if flt SelBlocked then (Next (), w)
      else case active_blocks now (req_ip req) w of
             [] \<Rightarrow> (Next (), w)
           | block # _ \<Rightarrow> (Respond 403 (IpBloqueada (b_razon block) (b_bloqueado_hasta block)), w))"

subsection \<open>validateAPIToken\<close>

text \<open>
  The digest \<open>crypto.createHash('sha256')\<close> is a library function: the model takes it as
  the parameter \<open>H\<close>. The lookup joins api\_tokens with usuarios and keeps the rows
  whose digest is the given one and whose token and owner are both active. (In the list
  below a row of the join is a pair.)
\<close>

definition select_active_token :: "world \<Rightarrow> string \<Rightarrow> (api_token \<times> usuario) list" where
  "select_active_token w h =
     filter (\<lambda>(t, u). at_usuario_id t = u_id u \<and> at_token_hash t = h
                        \<and> at_estado t = TActivo \<and> u_estado u = UActivo)
       (List.product (api_tokens w) (usuarios w))"

definition update_api_token :: "nat \<Rightarrow> (api_token \<Rightarrow> api_token) \<Rightarrow> world \<Rightarrow> world" where
  "update_api_token i f w =
     w\<lparr>api_tokens := map (\<lambda>t. if at_id t = i then f t else t) (api_tokens w)\<rparr>"

definition expired :: "instant \<Rightarrow> api_token \<Rightarrow> bool" where
  "expired now t = (case at_fecha_expiracion t of None \<Rightarrow> False | Some e \<Rightarrow> e < now)"

text \<open>
  Lines 11 to 41: the credential is resolved. \<open>!apiToken\<close> holds of an absent header
  and of an empty one. The first return is outside the try block; a throw inside the
  block is the value Threw.
\<close>

definition missing_token :: "faults \<Rightarrow> instant \<Rightarrow> request \<Rightarrow> world \<Rightarrow> (api_token \<times> usuario) step \<times> world" where
  "missing_token flt now req w =
     (Finish 401 ApiTokenRequerido,
      logSecurityEvent flt now (req_ip req) None ''token_invalido'' ''media'' (req_path req)
        (Some ''Missing API token'') w)"

definition lookup_token ::
  "(string \<Rightarrow> string) \<Rightarrow> faults \<Rightarrow> instant \<Rightarrow> request \<Rightarrow> string \<Rightarrow> world
     \<Rightarrow> (api_token \<times> usuario) step \<times> world" where
  "lookup_token H flt now req apiToken w =
     (if flt SelToken then (Threw, w)
      else case select_active_token w (H apiToken) of
        [] \<Rightarrow>
          (Finish 401 ApiTokenInvalidoORevocado,
           logSecurityEvent flt now (req_ip req) None ''token_invalido'' ''alta'' (req_path req)
             (Some (take 10 apiToken @ ''...'')) w)
      | (token, u) # _ \<Rightarrow>
          if expired now token
          then if flt UpdExpirado then (Threw, w)
               else (Finish 401 ApiTokenExpirado,
                     logSecurityEvent flt now (req_ip req) (Some (at_usuario_id token))
                       ''token_expirado'' ''media'' (req_path req) None
                       (update_api_token (at_id token) (\<lambda>t. t\<lparr>at_estado := TExpirado\<rparr>) w))
          else (Continue (token, u), w))"

definition validateAPIToken_auth ::
  "(string \<Rightarrow> string) \<Rightarrow> faults \<Rightarrow> instant \<Rightarrow> request \<Rightarrow> world
     \<Rightarrow> (api_token \<times> usuario) step \<times> world" where
  "validateAPIToken_auth H flt now req w =
     (case req_x_api_key req of
        None \<Rightarrow> missing_token flt now req w
      | Some apiToken \<Rightarrow>
          if apiToken = [] then missing_token flt now req w
          else lookup_token H flt now req apiToken w)"

text \<open>
  Lines 43 to 70: the usage recorded for the owner today (the UTC day of \<open>now\<close>) is read
  from limits\_usage and compared with the token's ceiling.
\<close>

definition today :: "instant \<Rightarrow> int" where
  "today now = now div 86400000"

definition currentUsage :: "world \<Rightarrow> nat \<Rightarrow> int \<Rightarrow> int" where
  "currentUsage w uid day =
     (case filter (\<lambda>r. lu_usuario_id r = uid \<and> lu_fecha r = day) (limits_usage w) of
        [] \<Rightarrow> 0
      | r # _ \<Rightarrow> lu_requests_count r)"

record auth_ctx =
  ac_apiToken :: api_token
  ac_user :: user_ctx

definition validateAPIToken_quota ::
  "faults \<Rightarrow> instant \<Rightarrow> request \<Rightarrow> api_token \<times> usuario \<Rightarrow> world \<Rightarrow> auth_ctx step \<times> world" where
  "validateAPIToken_quota flt now req tu w =
     (let token = fst tu; rol = u_rol (snd tu) in
      if flt SelUsage then (Threw, w)
      else let used = currentUsage w (at_usuario_id token) (today now) in
        if at_limite_requests_diario token \<le> used
        then (Finish 429 (LimiteDiarioDeRequestsExcedido (at_limite_requests_diario token) used),
              logSecurityEvent flt now (req_ip req) (Some (at_usuario_id token))
                ''rate_limit_excedido'' ''media'' (req_path req) None w)
        else if flt UpdUltimoUso then (Threw, w)
        else (Continue \<lparr>ac_apiToken = token,
                         ac_user = \<lparr>uc_id = at_usuario_id token, uc_rol = rol\<rparr>\<rparr>,
              update_api_token (at_id token)
                (\<lambda>t. t\<lparr>at_ultimo_uso := Some now, at_ip_ultimo_uso := Some (req_ip req),
                        at_user_agent_ultimo_uso := req_user_agent req\<rparr>) w))"

text \<open>
  Lines 72 to 76, the catch: the failure is logged (the text of \<open>error.message\<close> is not
  modelled: a fixed placeholder stands for it) and the answer is 500.
\<close>

definition on_error :: "faults \<Rightarrow> instant \<Rightarrow> request \<Rightarrow> world \<Rightarrow> auth_ctx outcome \<times> world" where
  "on_error flt now req w =
     (Respond 500 ErrorInternoDelServidor,
      logSecurityEvent flt now (req_ip req) None ''patron_anomalo'' ''alta'' (req_path req)
        (Some ''error.message'') w)"

definition validateAPIToken ::
  "(string \<Rightarrow> string) \<Rightarrow> faults \<Rightarrow> instant \<Rightarrow> request \<Rightarrow> world \<Rightarrow> auth_ctx outcome \<times> world" where
  "validateAPIToken H flt now req w =
     (case validateAPIToken_auth H flt now req w of
        (Finish st b, w1) \<Rightarrow> (Respond st b, w1)
      | (Threw, w1) \<Rightarrow> on_error flt now req w1
      | (Continue tu, w1) \<Rightarrow>
          (case validateAPIToken_quota flt now req tu w1 of
             (Finish st b, w2) \<Rightarrow> (Respond st b, w2)
           | (Threw, w2) \<Rightarrow> on_error flt now req w2
           | (Continue ctx, w2) \<Rightarrow> (Next ctx, w2)))"

subsection \<open>Strings and the four regular expressions of detectAttacks\<close>

text \<open>
  Strings are lists of bytes. The four expressions are ASCII and carry the flag
  \<open>i\<close>; without the flag \<open>u\<close> a character outside ASCII matches no ASCII
  letter and is no word character, so bytes behave as the code units do.
\<close>

definition backslash :: char where
  "backslash = CHR 0x5C"

definition dq :: char where
  "dq = CHR 0x22"

definition apostrophe :: char where
  "apostrophe = CHR 0x27"

fun startsWith :: "string \<Rightarrow> string \<Rightarrow> bool" where
  "startsWith s [] = True"
| "startsWith [] (p # ps) = False"
| "startsWith (c # cs) (p # ps) = (c = p \<and> startsWith cs ps)"

fun includes_str :: "string \<Rightarrow> string \<Rightarrow> bool" where
  "includes_str [] sub = (sub = [])"
| "includes_str (c # cs) sub = (startsWith (c # cs) sub \<or> includes_str cs sub)"

definition isWordChar :: "char \<Rightarrow> bool" where
  "isWordChar c =
     (let n = (of_char c :: nat)
      in (48 \<le> n \<and> n \<le> 57) \<or> (65 \<le> n \<and> n \<le> 90) \<or> n = 95 \<or> (97 \<le> n \<and> n \<le> 122))"

definition canonicalize :: "char \<Rightarrow> nat" where
  "canonicalize c = (let n = (of_char c :: nat) in if 97 \<le> n \<and> n \<le> 122 then n - 32 else n)"

fun startsWithCI :: "string \<Rightarrow> string \<Rightarrow> bool" where
  "startsWithCI s [] = True"
| "startsWithCI [] (p # ps) = False"
| "startsWithCI (c # cs) (p # ps) = (canonicalize c = canonicalize p \<and> startsWithCI cs ps)"

fun includesCI :: "string \<Rightarrow> string \<Rightarrow> bool" where
  "includesCI [] sub = (sub = [])"
| "includesCI (c # cs) sub = (startsWithCI (c # cs) sub \<or> includesCI cs sub)"

definition headOpt :: "string \<Rightarrow> char option" where
  "headOpt s = (case s of [] \<Rightarrow> None | c # _ \<Rightarrow> Some c)"

text \<open>
  \<open>\b\<close> between two neighbours (None at either end of the input): exactly one of
  them is a word character.
\<close>

definition wordBoundary :: "char option \<Rightarrow> char option \<Rightarrow> bool" where
  "wordBoundary a b =
     ((case a of None \<Rightarrow> False | Some c \<Rightarrow> isWordChar c)
        \<noteq> (case b of None \<Rightarrow> False | Some c \<Rightarrow> isWordChar c))"

text \<open>\<open>\bKW\b\<close> matched where \<open>rest\<close> begins, \<open>prev\<close> being the character before.\<close>

definition wordHere :: "string \<Rightarrow> char option \<Rightarrow> string \<Rightarrow> bool" where
  "wordHere kw prev rest =
     (wordBoundary prev (headOpt rest) \<and> startsWithCI rest kw \<and>
      wordBoundary (headOpt (rev (take (length kw) rest))) (headOpt (drop (length kw) rest)))"

text \<open>An unanchored expression is tried at every position, from the left.\<close>

fun searchFrom :: "(char option \<Rightarrow> string \<Rightarrow> bool) \<Rightarrow> char option \<Rightarrow> string \<Rightarrow> bool" where
  "searchFrom m prev [] = m prev []"
| "searchFrom m prev (c # cs) = (m prev (c # cs) \<or> searchFrom m (Some c) cs)"

definition anyWord :: "string list \<Rightarrow> string \<Rightarrow> bool" where
  "anyWord kws s = searchFrom (\<lambda>prev rest. list_ex (\<lambda>kw. wordHere kw prev rest) kws) None s"

text \<open>\<open>/(\bSELECT\b|\bUNION\b|\bINSERT\b|\bDELETE\b|\bDROP\b)/i\<close>\<close>

definition source_SQL :: string where
  "source_SQL =
     ''('' @ backslash # ''bSELECT'' @ backslash # ''b|'' @ backslash # ''bUNION'' @ backslash # ''b|'' @ backslash # ''bINSERT'' @ backslash #
     ''b|'' @ backslash # ''bDELETE'' @ backslash # ''b|'' @ backslash # ''bDROP'' @ backslash # ''b)''"

definition test_SQL :: "string \<Rightarrow> bool" where
  "test_SQL s = anyWord [''SELECT'', ''UNION'', ''INSERT'', ''DELETE'', ''DROP''] s"

text \<open>
  \<open>/<script\b[^<]*(?:(?!<\/script>)<[^<]*)*<\/script>/gi\<close>: an opening
  \<open><script\<close> that ends at a word boundary, then any text up to the first closing
  \<open></script>\<close>. The middle part accepts every text in which no \<open><\<close> begins
  \<open></script>\<close>, so the expression matches exactly when a closing tag occurs anywhere
  after the opening one. The expression is built anew on every call, so the flag
  \<open>g\<close> carries no position from one request to the next.
\<close>

definition source_XSS :: string where
  "source_XSS =
     ''<script'' @ backslash # ''b[^<]*(?:(?!<'' @ backslash # ''/script>)<[^<]*)*<'' @ backslash # ''/script>''"

definition scriptHere :: "char option \<Rightarrow> string \<Rightarrow> bool" where
  "scriptHere prev rest =
     (startsWithCI rest ''<script'' \<and>
      wordBoundary (headOpt (rev (take 7 rest))) (headOpt (drop 7 rest)) \<and>
      includesCI (drop 7 rest) ''</script>'')"

definition test_XSS :: "string \<Rightarrow> bool" where
  "test_XSS s = searchFrom scriptHere None s"

text \<open>\<open>/(\.\.|\/etc\/|\/bin\/|\/usr\/)/i\<close>\<close>

definition source_Path :: string where
  "source_Path =
     ''('' @ backslash # ''.'' @ backslash # ''.|'' @ backslash # ''/etc'' @ backslash # ''/|'' @ backslash # ''/bin'' @ backslash # ''/|'' @ backslash #
     ''/usr'' @ backslash # ''/)''"

definition test_Path :: "string \<Rightarrow> bool" where
  "test_Path s = list_ex (includesCI s) [''..'', ''/etc/'', ''/bin/'', ''/usr/'']"

text \<open>\<open>/(\beval\b|\bexec\b|\bsystem\b)/i\<close>\<close>

definition source_Cmd :: string where
  "source_Cmd =
     ''('' @ backslash # ''beval'' @ backslash # ''b|'' @ backslash # ''bexec'' @ backslash # ''b|'' @ backslash # ''bsystem'' @ backslash # ''b)''"

definition test_Cmd :: "string \<Rightarrow> bool" where
  "test_Cmd s = anyWord [''eval'', ''exec'', ''system''] s"

record pattern =
  p_source :: string
  p_test :: "string \<Rightarrow> bool"

definition suspiciousPatterns :: "pattern list" where
  "suspiciousPatterns =
     [\<lparr>p_source = source_SQL, p_test = test_SQL\<rparr>,
      \<lparr>p_source = source_XSS, p_test = test_XSS\<rparr>,
      \<lparr>p_source = source_Path, p_test = test_Path\<rparr>,
      \<lparr>p_source = source_Cmd, p_test = test_Cmd\<rparr>]"

subsection \<open>logAttackAttempt\<close>

definition recentAttacks :: "instant \<Rightarrow> string \<Rightarrow> world \<Rightarrow> int" where
  "recentAttacks now ip w =
     int (length (filter (\<lambda>a. aa_ip_address a = ip \<and> now - 3600000 < aa_timestamp a)
                    (attack_attempts w)))"

text \<open>
  \<open>INSERT ... ON CONFLICT (ip_address) DO UPDATE\<close>: a row of the address is updated
  where it stands, and only when there is none a row is added. The new row takes
  the table's default for veces\_bloqueado, 1.
\<close>

definition upsert_blocked_ip :: "string \<Rightarrow> string \<Rightarrow> tipo_bloqueo \<Rightarrow> instant \<Rightarrow> int \<Rightarrow> world \<Rightarrow> world" where
  "upsert_blocked_ip ip razon tipo hasta intentos w =
     (if ip \<in> set (map b_ip_address (blocked_ips w))
      then w\<lparr>blocked_ips :=
               map (\<lambda>b. if b_ip_address b = ip
                        then b\<lparr>b_bloqueado_hasta := Some hasta,
                               b_intentos_fallidos := b_intentos_fallidos b + 1,
                               b_veces_bloqueado := b_veces_bloqueado b + 1\<rparr>
                        else b)
                 (blocked_ips w)\<rparr>
      else w\<lparr>blocked_ips :=
               blocked_ips w @
               [\<lparr>b_ip_address = ip, b_razon = razon, b_tipo_bloqueo = tipo,
                 b_bloqueado_hasta = Some hasta, b_intentos_fallidos = intentos,
                 b_veces_bloqueado = 1\<rparr>]\<rparr>)"

text \<open>
  The reason text of line 142, with its accented letter as the two bytes of UTF-8.
\<close>

definition razon_auto :: string where
  "razon_auto = ''M'' @ [CHR 0xC3, CHR 0xBA] @ ''ltiples intentos de ataque detectados''"

text \<open>
  The whole body is one try block whose catch only prints: a throw leaves the store as
  the statements before it made it.
\<close>

definition logAttackAttempt ::
  "(string \<Rightarrow> string) \<Rightarrow> faults \<Rightarrow> instant \<Rightarrow> string \<Rightarrow> nat option \<Rightarrow> string \<Rightarrow> string \<Rightarrow> string
     \<Rightarrow> string \<Rightarrow> string \<Rightarrow> world \<Rightarrow> world" where
  "logAttackAttempt H flt now ip userId attackType severity payload endpoint method w =
     (if flt InsAttack then w
      else case insert_attack_attempt
             \<lparr>aa_ip_address = ip, aa_usuario_id = userId, aa_attack_type = attackType,
              aa_severidad = severity, aa_payload = payload, aa_payload_hash = H payload,
              aa_endpoint = endpoint, aa_metodo_http = method, aa_timestamp = now\<rparr> w of
          None \<Rightarrow> w
        | Some w1 \<Rightarrow>
            if flt SelRecentAttacks then w1
            else let count = recentAttacks now ip w1 in
              if 5 \<le> count
              then if flt UpsertBlocked then w1
                   else upsert_blocked_ip ip razon_auto Temporal
                          (now + 24 * 60 * 60 * 1000) count w1
              else w1)"

subsection \<open>detectAttacks\<close>

text \<open>
  Line 88 builds the text that the detectors read. \<open>req_body_json\<close> is
  \<open>JSON.stringify(req.body)\<close>. The middleware is mounted with \<open>app.use\<close>, before
  any route is matched, so \<open>req.params\<close> is the empty object and its
  \<open>toString()\<close> is the fixed text below. \<open>req.query\<close> is the object that
  Express builds from the query string with its extended parser (qs with prototype keys
  allowed, the default of Express 4; server.js sets no other);
  \<open>req_query_keys\<close> are its top-level keys. A key named toString is an own
  property of that object, a string, an array or an object, and calling it throws a
  TypeError; without such a key the call reaches the method of Object.prototype and gives
  the fixed text.
\<close>

datatype js_error = TypeError

definition payload_of :: "request \<Rightarrow> js_error + string" where
  "payload_of req =
     (if ''toString'' \<in> set (req_query_keys req) then Inl TypeError
      else Inr (req_body_json req @ ''[object Object]'' @ ''[object Object]''))"

text \<open>The four assignments run one after the other: a later one overwrites an earlier one.\<close>

definition attackType_of :: "pattern \<Rightarrow> string" where
  "attackType_of p =
     (let a0 = ''malformed_input'';
          a1 = (if includes_str (p_source p) ''SELECT|UNION'' then ''sql_injection'' else a0);
          a2 = (if includes_str (p_source p) ''script'' then ''xss'' else a1);
          a3 = (if includes_str (p_source p) ''etc|bin'' then ''path_traversal'' else a2);
          a4 = (if includes_str (p_source p) ''eval|exec'' then ''command_injection'' else a3)
      in a4)"

text \<open>
  detectAttacks is an async function without a try block. What line 88 throws rejects
  the promise that the function returns, and nothing handles it: this middleware sends no
  answer and does not call \<open>next\<close>. The value Inl stands for that outcome; the
  store is as it was, since the throw comes before the first statement that writes.
\<close>

definition detectAttacks ::
  "(string \<Rightarrow> string) \<Rightarrow> faults \<Rightarrow> instant \<Rightarrow> request \<Rightarrow> world
     \<Rightarrow> (js_error + unit outcome) \<times> world" where
  "detectAttacks H flt now req w =
     (case payload_of req of
        Inl e \<Rightarrow> (Inl e, w)
      | Inr payload \<Rightarrow>
          (case find (\<lambda>p. p_test p payload) suspiciousPatterns of
             None \<Rightarrow> (Inr (Next ()), w)
           | Some p \<Rightarrow>
               (Inr (Respond 400 SolicitudMalformadaDetectada),
                logAttackAttempt H flt now (req_ip req) (map_option uc_id (req_user req))
                  (attackType_of p) ''alta'' payload (req_path req) (req_method req) w)))"

section \<open>nodejs-web/server.js\<close>

subsection \<open>authenticateToken\<close>




subsection \<open>POST /tokens/generate\<close>




subsection \<open>GET /public/consultar/:token/:ruc\<close>

text \<open>
  The downstream service answers, answers with an error status, or does not answer
  (axios throws in the last two cases, with and without \<open>error.response\<close>). What is
  thrown inside the try block carries the status of \<open>error.response\<close>, if any.
\<close>

datatype python_result = PyOk | PyHttpError nat | PyNoResponse

datatype pub_step = PDone nat body | PThrew "nat option"

definition isDigit :: "char \<Rightarrow> bool" where
  "isDigit c = (let n = (of_char c :: nat) in 48 \<le> n \<and> n \<le> 57)"

definition charge_usage :: "instant \<Rightarrow> nat \<Rightarrow> world \<Rightarrow> world" where
  "charge_usage now i w =
     update_api_token i
       (\<lambda>t. t\<lparr>at_requests_utilizados_hoy := at_requests_utilizados_hoy t + 1,
               at_total_requests_historico := at_total_requests_historico t + 1,
               at_ultimo_uso := Some now\<rparr>) w"

definition log_request :: "nat \<Rightarrow> nat \<Rightarrow> string \<Rightarrow> nat \<Rightarrow> string \<Rightarrow> world \<Rightarrow> world" where
  "log_request uid tid ruc status ip w =
     w\<lparr>requests_log := requests_log w @
         [\<lparr>rl_usuario_id = uid, rl_token_id = tid, rl_endpoint = ''/public/consultar'',
           rl_cedula_consultada = ruc, rl_status_code = status, rl_ip_cliente = ip\<rparr>]\<rparr>"

text \<open>Lines 634 to 746, the try block.\<close>

definition publicConsultar_try ::
  "(string \<Rightarrow> string) \<Rightarrow> faults \<Rightarrow> instant \<Rightarrow> python_result \<Rightarrow> string \<Rightarrow> string \<Rightarrow> string \<Rightarrow> world
     \<Rightarrow> pub_step \<times> world" where
  "publicConsultar_try H flt now py clientIp token ruc w =
     (if token = [] \<or> \<not> startsWith token ''fp_'' then (PDone 401 FormatoDeTokenInvalido, w)
      else if ruc = [] \<or> \<not> list_all isDigit ruc \<or> \<not> (length ruc = 10 \<or> length ruc = 13)
      then (PDone 400 RucInvalido, w)
      else if flt PubSelToken then (PThrew None, w)
      else (case select_active_token w (H token) of
        [] \<Rightarrow>
          (if flt PubInsTokenInvalido then (PThrew None, w)
          else (case insert_security_event
                       [''ip_address'', ''evento_tipo'', ''severidad'', ''endpoint'',
                        ''payload_sospechoso'']
                       \<lparr>se_ip_address = clientIp, se_usuario_id = None,
                        se_evento_tipo = ''token_invalido'', se_severidad = ''alta'',
                        se_endpoint = ''/public/consultar'',
                        se_payload_sospechoso = Some (take 10 token @ ''...''),
                        se_timestamp = now\<rparr> w of
                  None \<Rightarrow> (PThrew None, w)
                | Some w1 \<Rightarrow> (PDone 401 TokenInvalidoOInactivo, w1)))
      | (tokenData, u) # _ \<Rightarrow>
          (if at_limite_requests_diario tokenData \<le> at_requests_utilizados_hoy tokenData
          then (if flt PubInsLimite then (PThrew None, w)
               else (case insert_security_event
                            [''ip_address'', ''usuario_id'', ''evento_tipo'', ''severidad'',
                             ''endpoint'', ''detalles'']
                            \<lparr>se_ip_address = clientIp,
                             se_usuario_id = Some (at_usuario_id tokenData),
                             se_evento_tipo = ''limite_excedido'', se_severidad = ''media'',
                             se_endpoint = ''/public/consultar'',
                             se_payload_sospechoso = None, se_timestamp = now\<rparr> w of
                       None \<Rightarrow> (PThrew None, w)
                     | Some w1 \<Rightarrow>
                         (PDone 429 (LimiteDiarioExcedido (at_limite_requests_diario tokenData)
                                       (at_requests_utilizados_hoy tokenData)), w1)))
          else if flt PubUpdUso then (PThrew None, w)
          else (let w1 = charge_usage now (at_id tokenData) w;
                   w2 = w1\<lparr>python_calls := python_calls w1 @ [(token, ruc)]\<rparr>
               in (case py of
                    PyHttpError st \<Rightarrow> (PThrew (Some st), w2)
                  | PyNoResponse \<Rightarrow> (PThrew None, w2)
                  | PyOk \<Rightarrow>
                      if flt PubInsRequestLog then (PThrew None, w2)
                      else (PDone 200
                              (ConsultaData
                                 (at_limite_requests_diario tokenData
                                    - at_requests_utilizados_hoy tokenData - 1)
                                 (at_limite_requests_diario tokenData)),
                            log_request (at_usuario_id tokenData) (at_id tokenData) ruc 200
                              clientIp w2))))))"

text \<open>
  Lines 748 to 782, the catch: the failed request is logged when a token of that digest
  exists (a throw there is swallowed), then the downstream's error is passed on, or the
  answer is 500.
\<close>

definition publicConsultar_catch ::
  "(string \<Rightarrow> string) \<Rightarrow> faults \<Rightarrow> nat option \<Rightarrow> string \<Rightarrow> string \<Rightarrow> string \<Rightarrow> world
     \<Rightarrow> (nat \<times> body) \<times> world" where
  "publicConsultar_catch H flt err clientIp token ruc w =
     (let status = (case err of None \<Rightarrow> 500 | Some st \<Rightarrow> if st = 0 then 500 else st);
          w1 = (if flt PubCatchSelToken then w
                else case filter (\<lambda>t. at_token_hash t = H token) (api_tokens w) of
                  [] \<Rightarrow> w
                | t # _ \<Rightarrow>
                    if flt PubCatchInsRequestLog then w
                    else log_request (at_usuario_id t) (at_id t)
                           (if ruc = [] then ''unknown'' else ruc) status clientIp w)
      in case err of
           Some st \<Rightarrow> ((st, DownstreamErrorData), w1)
         | None \<Rightarrow> ((500, ErrorInternoNoSePudoProcesar), w1))"

definition publicConsultar ::
  "(string \<Rightarrow> string) \<Rightarrow> faults \<Rightarrow> instant \<Rightarrow> python_result \<Rightarrow> string \<Rightarrow> string \<Rightarrow> string \<Rightarrow> world
     \<Rightarrow> (nat \<times> body) \<times> world" where
  "publicConsultar H flt now py clientIp token ruc w =
     (case publicConsultar_try H flt now py clientIp token ruc w of
        (PDone st b, w1) \<Rightarrow> ((st, b), w1)
      | (PThrew err, w1) \<Rightarrow> publicConsultar_catch H flt err clientIp token ruc w1)"

subsection \<open>The handler as two steps that other requests can come between\<close>

text \<open>
  Every \<open>await\<close> hands control back to the event loop, which can run the handler
  of another request before this one goes on. The handler is cut here at the await of
  the UPDATE (line 693). \<open>publicConsultar_check\<close> is what runs up to the quota
  decision (lines 634 to 690): it answers or throws (Stopped), or it admits the request
  with the row \<open>tokenData\<close> that its SELECT read. \<open>publicConsultar_charge\<close>
  is what an admitted request runs from the UPDATE on (lines 692 to 746), on the store as
  it is by then and with the row read before. \<open>publicConsultar_resume\<close> finishes a
  request after its check, the catch included. Run one right after the other on the same
  store, the steps are the handler (lemma publicConsultar\_steps below).
\<close>

datatype pub_check = Admitted api_token | Stopped pub_step

definition publicConsultar_check ::
  "(string \<Rightarrow> string) \<Rightarrow> faults \<Rightarrow> instant \<Rightarrow> string \<Rightarrow> string \<Rightarrow> string \<Rightarrow> world
     \<Rightarrow> pub_check \<times> world" where
  "publicConsultar_check H flt now clientIp token ruc w =
     (if token = [] \<or> \<not> startsWith token ''fp_''
      then (Stopped (PDone 401 FormatoDeTokenInvalido), w)
      else if ruc = [] \<or> \<not> list_all isDigit ruc \<or> \<not> (length ruc = 10 \<or> length ruc = 13)
      then (Stopped (PDone 400 RucInvalido), w)
      else if flt PubSelToken then (Stopped (PThrew None), w)
      else (case select_active_token w (H token) of
        [] \<Rightarrow>
          (if flt PubInsTokenInvalido then (Stopped (PThrew None), w)
          else (case insert_security_event
                       [''ip_address'', ''evento_tipo'', ''severidad'', ''endpoint'',
                        ''payload_sospechoso'']
                       \<lparr>se_ip_address = clientIp, se_usuario_id = None,
                        se_evento_tipo = ''token_invalido'', se_severidad = ''alta'',
                        se_endpoint = ''/public/consultar'',
                        se_payload_sospechoso = Some (take 10 token @ ''...''),
                        se_timestamp = now\<rparr> w of
                  None \<Rightarrow> (Stopped (PThrew None), w)
                | Some w1 \<Rightarrow> (Stopped (PDone 401 TokenInvalidoOInactivo), w1)))
      | (tokenData, u) # _ \<Rightarrow>
          (if at_limite_requests_diario tokenData \<le> at_requests_utilizados_hoy tokenData
          then (if flt PubInsLimite then (Stopped (PThrew None), w)
               else (case insert_security_event
                            [''ip_address'', ''usuario_id'', ''evento_tipo'', ''severidad'',
                             ''endpoint'', ''detalles'']
                            \<lparr>se_ip_address = clientIp,
                             se_usuario_id = Some (at_usuario_id tokenData),
                             se_evento_tipo = ''limite_excedido'', se_severidad = ''media'',
                             se_endpoint = ''/public/consultar'',
                             se_payload_sospechoso = None, se_timestamp = now\<rparr> w of
                       None \<Rightarrow> (Stopped (PThrew None), w)
                     | Some w1 \<Rightarrow>
                         (Stopped (PDone 429 (LimiteDiarioExcedido
                                     (at_limite_requests_diario tokenData)
                                     (at_requests_utilizados_hoy tokenData))), w1)))
          else (Admitted tokenData, w))))"

definition publicConsultar_charge ::
  "faults \<Rightarrow> instant \<Rightarrow> python_result \<Rightarrow> string \<Rightarrow> string \<Rightarrow> string \<Rightarrow> api_token \<Rightarrow> world
     \<Rightarrow> pub_step \<times> world" where
  "publicConsultar_charge flt now py clientIp token ruc tokenData w =
     (if flt PubUpdUso then (PThrew None, w)
      else (let w1 = charge_usage now (at_id tokenData) w;
                w2 = w1\<lparr>python_calls := python_calls w1 @ [(token, ruc)]\<rparr>
            in (case py of
                  PyHttpError st \<Rightarrow> (PThrew (Some st), w2)
                | PyNoResponse \<Rightarrow> (PThrew None, w2)
                | PyOk \<Rightarrow>
                    if flt PubInsRequestLog then (PThrew None, w2)
                    else (PDone 200
                            (ConsultaData
                               (at_limite_requests_diario tokenData
                                  - at_requests_utilizados_hoy tokenData - 1)
                               (at_limite_requests_diario tokenData)),
                          log_request (at_usuario_id tokenData) (at_id tokenData) ruc 200
                            clientIp w2))))"

definition publicConsultar_resume ::
  "(string \<Rightarrow> string) \<Rightarrow> faults \<Rightarrow> instant \<Rightarrow> python_result \<Rightarrow> string \<Rightarrow> string \<Rightarrow> string
     \<Rightarrow> pub_check \<Rightarrow> world \<Rightarrow> (nat \<times> body) \<times> world" where
  "publicConsultar_resume H flt now py clientIp token ruc d w =
     (case (case d of
              Stopped s \<Rightarrow> (s, w)
            | Admitted tokenData \<Rightarrow>
                publicConsultar_charge flt now py clientIp token ruc tokenData w) of
        (PDone st b, w1) \<Rightarrow> ((st, b), w1)
      | (PThrew err, w1) \<Rightarrow> publicConsultar_catch H flt err clientIp token ruc w1)"

text \<open>
  Two requests for the same token and ruc whose handlers interleave: the first runs its
  check at \<open>t1\<close>, the second runs its check at \<open>t2\<close>, and only then the first
  goes on (at \<open>t3\<close>), and then the second (at \<open>t4\<close>).
\<close>

definition publicConsultar_interleaved ::
  "(string \<Rightarrow> string) \<Rightarrow> faults \<Rightarrow> instant \<Rightarrow> instant \<Rightarrow> instant \<Rightarrow> instant
     \<Rightarrow> python_result \<Rightarrow> python_result \<Rightarrow> string \<Rightarrow> string \<Rightarrow> string \<Rightarrow> world
     \<Rightarrow> (nat \<times> body) list \<times> world" where
  "publicConsultar_interleaved H flt t1 t2 t3 t4 py py' clientIp token ruc w =
     (case publicConsultar_check H flt t1 clientIp token ruc w of (d1, w1) \<Rightarrow>
      (case publicConsultar_check H flt t2 clientIp token ruc w1 of (d2, w2) \<Rightarrow>
       (case publicConsultar_resume H flt t3 py clientIp token ruc d1 w2 of (r1, w3) \<Rightarrow>
        (case publicConsultar_resume H flt t4 py' clientIp token ruc d2 w3 of (r2, w4) \<Rightarrow>
           ([r1, r2], w4)))))"

section \<open>Statements of the specification, and concrete stores and requests\<close>

text \<open>
  The block check in the specification's words: a row of the address whose kind is
  permanent or whose expiry lies in the future. It is compared with checkBlockedIP below.
\<close>

definition blocked_as_specified :: "instant \<Rightarrow> string \<Rightarrow> world \<Rightarrow> bool" where
  "blocked_as_specified now ip w =
     list_ex (\<lambda>b. b_ip_address b = ip \<and>
                  (b_tipo_bloqueo b = Permanente \<or>
                   (case b_bloqueado_hasta b of None \<Rightarrow> False | Some t \<Rightarrow> now < t)))
       (blocked_ips w)"


subsection \<open>Names for what the handlers write\<close>



definition charged :: "instant \<Rightarrow> api_token \<Rightarrow> api_token" where
  "charged now t = t\<lparr>at_requests_utilizados_hoy := at_requests_utilizados_hoy t + 1,
                     at_total_requests_historico := at_total_requests_historico t + 1,
                     at_ultimo_uso := Some now\<rparr>"

definition touched :: "instant \<Rightarrow> request \<Rightarrow> api_token \<Rightarrow> api_token" where
  "touched now req t = t\<lparr>at_ultimo_uso := Some now, at_ip_ultimo_uso := Some (req_ip req),
                         at_user_agent_ultimo_uso := req_user_agent req\<rparr>"

definition reblock :: "instant \<Rightarrow> blocked_ip \<Rightarrow> blocked_ip" where
  "reblock now b = b\<lparr>b_bloqueado_hasta := Some (now + 86400000),
                     b_intentos_fallidos := b_intentos_fallidos b + 1,
                     b_veces_bloqueado := b_veces_bloqueado b + 1\<rparr>"

definition first_block :: "instant \<Rightarrow> string \<Rightarrow> int \<Rightarrow> blocked_ip" where
  "first_block now ip n = \<lparr>b_ip_address = ip, b_razon = razon_auto,
     b_tipo_bloqueo = Temporal, b_bloqueado_hasta = Some (now + 86400000),
     b_intentos_fallidos = n, b_veces_bloqueado = 1\<rparr>"

definition is_Next :: "'a outcome \<Rightarrow> bool" where
  "is_Next r = (case r of Next _ \<Rightarrow> True | Respond _ _ \<Rightarrow> False)"

text \<open>Requests served one after the other, each at its instant, on the store the last one left.\<close>

primrec serve :: "(instant \<Rightarrow> world \<Rightarrow> 'r \<times> world) \<Rightarrow> instant list \<Rightarrow> world \<Rightarrow> 'r list \<times> world" where
  "serve f [] w = ([], w)"
| "serve f (t # ts) w =
     (case f t w of (r, w1) \<Rightarrow> (case serve f ts w1 of (rs, w2) \<Rightarrow> (r # rs, w2)))"

subsection \<open>Concrete stores and requests\<close>

text \<open>
  Closed examples need a digest they can compute: \<open>digest0\<close> stands in for SHA-256
  there (it is injective). No general theorem depends on it.
\<close>

definition digest0 :: "string \<Rightarrow> string" where
  "digest0 s = ''sha256:'' @ s"

definition storage_down :: faults where
  "storage_down = (\<lambda>s. True)"

definition empty_world :: world where
  "empty_world = \<lparr>usuarios = [], api_tokens = [], limits_usage = [], security_events = [],
     attack_attempts = [], blocked_ips = [], requests_log = [], python_calls = []\<rparr>"

definition usuario_activo :: usuario where
  "usuario_activo = \<lparr>u_id = 1, u_nombre = ''Ana'', u_email = ''ana@example.com'',
     u_rol = ''cliente'', u_estado = UActivo, u_plan = ''free''\<rparr>"

definition usuario_suspendido :: usuario where
  "usuario_suspendido = \<lparr>u_id = 2, u_nombre = ''Luis'', u_email = ''luis@example.com'',
     u_rol = ''cliente'', u_estado = USuspendido, u_plan = ''free''\<rparr>"

definition token_row :: "nat \<Rightarrow> nat \<Rightarrow> string \<Rightarrow> int \<Rightarrow> instant option \<Rightarrow> api_token" where
  "token_row i uid h limite expiry =
     \<lparr>at_id = i, at_usuario_id = uid, at_token_hash = h, at_nombre = ''produccion'',
      at_limite_requests_diario = limite, at_requests_utilizados_hoy = 0, at_estado = TActivo,
      at_fecha_expiracion = expiry, at_ultimo_uso = None, at_ip_ultimo_uso = None,
      at_user_agent_ultimo_uso = None, at_total_requests_historico = 0\<rparr>"

definition api_request :: "string option \<Rightarrow> request" where
  "api_request key = \<lparr>req_ip = ''203.0.113.7'', req_path = ''/consultar'', req_method = ''POST'',
     req_x_api_key = key, req_user_agent = Some ''curl'', req_authorization = None,
     req_body_json = ''{}'', req_query_keys = [], req_user = None\<rparr>"

definition request_from :: "string \<Rightarrow> request" where
  "request_from ip = \<lparr>req_ip = ip, req_path = ''/health'', req_method = ''GET'',
     req_x_api_key = None, req_user_agent = None, req_authorization = None,
     req_body_json = ''{}'', req_query_keys = [], req_user = None\<rparr>"

text \<open>The body \<open>{"q": v}\<close> as JSON.stringify prints it, for a text \<open>v\<close> it does not escape.\<close>

definition json_q :: "string \<Rightarrow> string" where
  "json_q v = ''{'' @ [dq] @ ''q'' @ [dq] @ '':'' @ [dq] @ v @ [dq] @ ''}''"

definition body_request :: "string \<Rightarrow> request" where
  "body_request j = \<lparr>req_ip = ''198.51.100.9'', req_path = ''/api/consultar'', req_method = ''POST'',
     req_x_api_key = None, req_user_agent = Some ''curl'', req_authorization = None,
     req_body_json = j, req_query_keys = [], req_user = None\<rparr>"

definition or_payload :: string where
  "or_payload = [apostrophe] @ '' OR 1=1 --''"

definition sql_script_payload :: string where
  "sql_script_payload = ''SELECT <script>x</script>''"

definition block_row :: "string \<Rightarrow> tipo_bloqueo \<Rightarrow> instant option \<Rightarrow> blocked_ip" where
  "block_row ip k h = \<lparr>b_ip_address = ip, b_razon = ''manual'', b_tipo_bloqueo = k,
     b_bloqueado_hasta = h, b_intentos_fallidos = 0, b_veces_bloqueado = 1\<rparr>"

definition attack_row :: "string \<Rightarrow> instant \<Rightarrow> attack_attempt" where
  "attack_row ip t = \<lparr>aa_ip_address = ip, aa_usuario_id = None, aa_attack_type = ''xss'',
     aa_severidad = ''alta'', aa_payload = ''<script>x</script>'', aa_payload_hash = ''h'',
     aa_endpoint = ''/api/consultar'', aa_metodo_http = ''POST'', aa_timestamp = t\<rparr>"

text \<open>
  One active owner with a live token and a token past its expiry, and a suspended owner
  with a token of their own.
\<close>

definition world_auth :: world where
  "world_auth = empty_world
     \<lparr>usuarios := [usuario_activo, usuario_suspendido],
      api_tokens := [token_row 1 1 (digest0 ''fp_live'') 1000 None,
                     token_row 2 1 (digest0 ''fp_old'') 1000 (Some 500),
                     token_row 3 2 (digest0 ''fp_susp'') 1000 None]\<rparr>"


definition world_blocked :: world where
  "world_blocked = empty_world\<lparr>blocked_ips := [block_row ''203.0.113.7'' Temporal (Some 5000)]\<rparr>"

text \<open>A permanent row that carries a past expiry, and an escalated row without expiry.\<close>

definition world_kinds :: world where
  "world_kinds = empty_world
     \<lparr>blocked_ips := [block_row ''10.0.0.1'' Permanente (Some 500),
                      block_row ''10.0.0.2'' Escalado None]\<rparr>"

text \<open>
  Three addresses with four attacks each inside the last hour. The first has no block
  row; the second carries an escalated block that lasts a week (604800000); the third
  carries an escalated block that ended at 100.
\<close>

definition world_attacked :: world where
  "world_attacked = empty_world
     \<lparr>attack_attempts := [attack_row ''198.51.100.9'' 1000, attack_row ''198.51.100.9'' 2000,
                          attack_row ''198.51.100.9'' 3000, attack_row ''198.51.100.9'' 4000,
                          attack_row ''192.0.2.44'' 1000, attack_row ''192.0.2.44'' 2000,
                          attack_row ''192.0.2.44'' 3000, attack_row ''192.0.2.44'' 4000,
                          attack_row ''192.0.2.77'' 1000, attack_row ''192.0.2.77'' 2000,
                          attack_row ''192.0.2.77'' 3000, attack_row ''192.0.2.77'' 4000],
      blocked_ips := [block_row ''192.0.2.44'' Escalado (Some 604800000),
                      block_row ''192.0.2.77'' Escalado (Some 100)]\<rparr>"

text \<open>The owner's only token, with ceiling 3 and nothing used.\<close>

definition world_quota :: "(string \<Rightarrow> string) \<Rightarrow> world" where
  "world_quota H = empty_world
     \<lparr>usuarios := [usuario_activo],
      api_tokens := [token_row 1 1 (H ''fp_live'') 3 None]\<rparr>"

definition world_usage :: world where
  "world_usage = (world_quota digest0)
     \<lparr>limits_usage := [\<lparr>lu_usuario_id = 1, lu_fecha = 0, lu_requests_count = 0\<rparr>]\<rparr>"

definition world_spent :: world where
  "world_spent = empty_world
     \<lparr>usuarios := [usuario_activo],
      api_tokens := [(token_row 1 1 (digest0 ''fp_live'') 3 None)
                       \<lparr>at_requests_utilizados_hoy := 3, at_total_requests_historico := 40,
                        at_ultimo_uso := Some 900\<rparr>]\<rparr>"

definition world_one :: world where
  "world_one = empty_world
     \<lparr>usuarios := [usuario_activo],
      api_tokens := [token_row 1 1 (digest0 ''fp_live'') 1 None]\<rparr>"

definition ruc0 :: string where
  "ruc0 = ''1790012345001''"








section \<open>Verification\<close>

lemmas example_defs = digest0_def usuario_activo_def usuario_suspendido_def token_row_def
  api_request_def world_auth_def empty_world_def no_faults_def

subsection \<open>The lookup and the audit log\<close>

text \<open>
  The digest column is UNIQUE and the owner's id is a primary key, so on a store that
  the database accepts the join has at most one row; the model takes the first.
\<close>

lemma select_active_token_set:
  "(t, u) \<in> set (select_active_token w h) \<longleftrightarrow>
     t \<in> set (api_tokens w) \<and> u \<in> set (usuarios w) \<and> at_usuario_id t = u_id u \<and>
     at_token_hash t = h \<and> at_estado t = TActivo \<and> u_estado u = UActivo"
  by (auto simp: select_active_token_def)


text \<open>logSecurityEvent writes security\_events and nothing else.\<close>

lemma logSecurityEvent_frame:
  "usuarios (logSecurityEvent flt now ip uid ev sev ep pl w) = usuarios w"
  "api_tokens (logSecurityEvent flt now ip uid ev sev ep pl w) = api_tokens w"
  "limits_usage (logSecurityEvent flt now ip uid ev sev ep pl w) = limits_usage w"
  "attack_attempts (logSecurityEvent flt now ip uid ev sev ep pl w) = attack_attempts w"
  "blocked_ips (logSecurityEvent flt now ip uid ev sev ep pl w) = blocked_ips w"
  "requests_log (logSecurityEvent flt now ip uid ev sev ep pl w) = requests_log w"
  "python_calls (logSecurityEvent flt now ip uid ev sev ep pl w) = python_calls w"
  by (simp_all add: logSecurityEvent_def insert_security_event_def)

subsection \<open>validateAPIToken, case by case\<close>

lemma auth_present:
  "req_x_api_key req = Some tok \<Longrightarrow> tok \<noteq> [] \<Longrightarrow>
     validateAPIToken_auth H flt now req w = lookup_token H flt now req tok w"
  by (simp add: validateAPIToken_auth_def)




text \<open>A token that is found and not expired goes to the quota check with its row.\<close>

lemma validate_resolved:
  assumes "req_x_api_key req = Some tok" "tok \<noteq> []" "\<not> flt SelToken"
    and "select_active_token w (H tok) = (t, u) # rest" "\<not> expired now t"
  shows "validateAPIToken H flt now req w =
       (case validateAPIToken_quota flt now req (t, u) w of
          (Finish st b, w2) \<Rightarrow> (Respond st b, w2)
        | (Threw, w2) \<Rightarrow> on_error flt now req w2
        | (Continue ctx, w2) \<Rightarrow> (Next ctx, w2))"
  using assms by (simp add: validateAPIToken_def auth_present lookup_token_def)


lemma validate_hands_on:
  assumes "req_x_api_key req = Some tok" "tok \<noteq> []" "\<not> flt SelToken"
    and "select_active_token w (H tok) = (t, u) # rest" "\<not> expired now t" "\<not> flt SelUsage"
    and "currentUsage w (at_usuario_id t) (today now) < at_limite_requests_diario t"
    and "\<not> flt UpdUltimoUso"
  shows "validateAPIToken H flt now req w =
       (Next \<lparr>ac_apiToken = t, ac_user = \<lparr>uc_id = at_usuario_id t, uc_rol = u_rol u\<rparr>\<rparr>,
        w\<lparr>api_tokens := map (\<lambda>x. if at_id x = at_id t then touched now req x else x)
                             (api_tokens w)\<rparr>)"
  using assms(6,7,8)
  by (simp add: validate_resolved[where H = H and flt = flt, OF assms(1-5)] validateAPIToken_quota_def Let_def
        update_api_token_def touched_def)



subsection \<open>checkBlockedIP\<close>

lemma active_blocks_empty_iff:
  "active_blocks now ip w = [] \<longleftrightarrow>
     \<not> (\<exists>b. b \<in> set (blocked_ips w) \<and> b_ip_address b = ip \<and>
            (b_bloqueado_hasta b = None \<or> (\<exists>t. b_bloqueado_hasta b = Some t \<and> now < t)))"
  by (auto simp: active_blocks_def filter_empty_conv split: option.splits)

text \<open>
  C7, as the code has it. checkBlockedIP answers 403 exactly when its query succeeds and
  a row of the address exists whose expiry is absent (how the table stores a permanent
  block) or lies in the future; the kind of the row is not read. The check writes
  nothing: the store after it is the store before it.
\<close>

theorem checkBlockedIP_blocked_iff:
  "(fst (checkBlockedIP flt now req w) \<noteq> Next ()) =
     (\<not> flt SelBlocked \<and>
      (\<exists>b. b \<in> set (blocked_ips w) \<and> b_ip_address b = req_ip req \<and>
           (b_bloqueado_hasta b = None \<or> (\<exists>t. b_bloqueado_hasta b = Some t \<and> now < t))))
   \<and> snd (checkBlockedIP flt now req w) = w"
proof (cases "flt SelBlocked")
  case True
  then show ?thesis by (simp add: checkBlockedIP_def)
next
  case False
  show ?thesis
  proof (cases "active_blocks now (req_ip req) w")
    case Nil
    with False active_blocks_empty_iff[of now "req_ip req" w] show ?thesis
      by (simp add: checkBlockedIP_def)
  next
    case (Cons b rest)
    with False active_blocks_empty_iff[of now "req_ip req" w] show ?thesis
      by (auto simp: checkBlockedIP_def)
  qed
qed

text \<open>A temporary block until 5000: blocked at 1000, no longer blocked at 6000.\<close>

theorem checkBlockedIP_blocked_iff_witness:
  "fst (checkBlockedIP no_faults 1000 (request_from ''203.0.113.7'') world_blocked) \<noteq> Next ()
   \<and> fst (checkBlockedIP no_faults 6000 (request_from ''203.0.113.7'') world_blocked) = Next ()
   \<and> snd (checkBlockedIP no_faults 1000 (request_from ''203.0.113.7'') world_blocked) = world_blocked"
  using checkBlockedIP_blocked_iff[of no_faults 1000 "request_from ''203.0.113.7''" world_blocked]
        checkBlockedIP_blocked_iff[of no_faults 6000 "request_from ''203.0.113.7''" world_blocked]
  by (simp add: no_faults_def request_from_def empty_world_def block_row_def world_blocked_def)

text \<open>
  C7 as the specification words it fails on \<open>world_kinds\<close> at instant 1000: the
  address 10.0.0.1 has a permanent row (with an expiry of 500) and passes the check; the
  address 10.0.0.2 has a row that is neither permanent nor has an expiry in the future
  (escalated, no expiry) and is answered 403.
\<close>

theorem checkBlockedIP_kind_counterexample:
  "blocked_as_specified 1000 ''10.0.0.1'' world_kinds
   \<and> fst (checkBlockedIP no_faults 1000 (request_from ''10.0.0.1'') world_kinds) = Next ()
   \<and> \<not> blocked_as_specified 1000 ''10.0.0.2'' world_kinds
   \<and> fst (checkBlockedIP no_faults 1000 (request_from ''10.0.0.2'') world_kinds)
       = Respond 403 (IpBloqueada ''manual'' None)"
  by (simp add: blocked_as_specified_def checkBlockedIP_def active_blocks_def no_faults_def
        request_from_def empty_world_def block_row_def world_kinds_def)

subsection \<open>Internal failures\<close>

text \<open>A storage call of validateAPIToken that throws inside the try block ends in the catch.\<close>

lemma validate_fault_lookup:
  assumes "req_x_api_key req = Some tok" "tok \<noteq> []" "flt SelToken"
  shows "validateAPIToken H flt now req w = on_error flt now req w"
  using assms by (simp add: validateAPIToken_def auth_present lookup_token_def)

lemma validate_fault_expiry:
  assumes "req_x_api_key req = Some tok" "tok \<noteq> []" "\<not> flt SelToken"
    and "select_active_token w (H tok) = (t, u) # rest" "expired now t" "flt UpdExpirado"
  shows "validateAPIToken H flt now req w = on_error flt now req w"
  using assms by (simp add: validateAPIToken_def auth_present lookup_token_def)

lemma validate_fault_usage:
  assumes "req_x_api_key req = Some tok" "tok \<noteq> []" "\<not> flt SelToken"
    and "select_active_token w (H tok) = (t, u) # rest" "\<not> expired now t" "flt SelUsage"
  shows "validateAPIToken H flt now req w = on_error flt now req w"
  using assms(6)
  by (simp add: validate_resolved[where H = H and flt = flt, OF assms(1-5)] validateAPIToken_quota_def Let_def)

lemma validate_fault_last_use:
  assumes "req_x_api_key req = Some tok" "tok \<noteq> []" "\<not> flt SelToken"
    and "select_active_token w (H tok) = (t, u) # rest" "\<not> expired now t" "\<not> flt SelUsage"
    and "currentUsage w (at_usuario_id t) (today now) < at_limite_requests_diario t"
    and "flt UpdUltimoUso"
  shows "validateAPIToken H flt now req w = on_error flt now req w"
  using assms(6,7,8)
  by (simp add: validate_resolved[where H = H and flt = flt, OF assms(1-5)] validateAPIToken_quota_def Let_def)

lemma on_error_500:
  "fst (on_error flt now req w) = Respond 500 ErrorInternoDelServidor"
  by (simp add: on_error_def)

text \<open>The two stages under faults: a stage throws, or it answers as it does without faults.\<close>

lemma auth_faults:
  "fst (validateAPIToken_auth H flt now req w) = Threw \<or>
   (fst (validateAPIToken_auth H flt now req w) = fst (validateAPIToken_auth H no_faults now req w) \<and>
    (\<forall>tu. fst (validateAPIToken_auth H flt now req w) = Continue tu \<longrightarrow>
       snd (validateAPIToken_auth H flt now req w) = w \<and>
       snd (validateAPIToken_auth H no_faults now req w) = w))"
  by (auto simp: validateAPIToken_auth_def missing_token_def lookup_token_def no_faults_def
           split: option.splits list.splits)

lemma quota_faults:
  "fst (validateAPIToken_quota flt now req tu w) = Threw \<or>
   fst (validateAPIToken_quota flt now req tu w) = fst (validateAPIToken_quota no_faults now req tu w)"
  by (auto simp: validateAPIToken_quota_def no_faults_def Let_def)

lemma validate_Threw_auth:
  "fst (validateAPIToken_auth H flt now req w) = Threw \<Longrightarrow>
     fst (validateAPIToken H flt now req w) = Respond 500 ErrorInternoDelServidor"
  by (cases "validateAPIToken_auth H flt now req w") (simp add: validateAPIToken_def on_error_def)

text \<open>
  A fault can turn the answer of validateAPIToken into 500 and into nothing else: where
  the answer is not 500 it is the answer the same request gets when no call fails.
\<close>

lemma validate_faults:
  "fst (validateAPIToken H flt now req w) = Respond 500 ErrorInternoDelServidor \<or>
   fst (validateAPIToken H flt now req w) = fst (validateAPIToken H no_faults now req w)"
proof (cases "fst (validateAPIToken_auth H flt now req w) = Threw")
  case True
  then show ?thesis by (simp add: validate_Threw_auth)
next
  case False
  with auth_faults[of H flt now req w]
  have eq: "fst (validateAPIToken_auth H flt now req w) = fst (validateAPIToken_auth H no_faults now req w)"
    and cont: "\<And>tu. fst (validateAPIToken_auth H flt now req w) = Continue tu \<Longrightarrow>
       snd (validateAPIToken_auth H flt now req w) = w \<and>
       snd (validateAPIToken_auth H no_faults now req w) = w"
    by auto
  obtain s1 w1 where a1: "validateAPIToken_auth H flt now req w = (s1, w1)" by force
  obtain s2 w2 where a2: "validateAPIToken_auth H no_faults now req w = (s2, w2)" by force
  from eq a1 a2 have s: "s2 = s1" by simp
  show ?thesis
  proof (cases s1)
    case (Continue tu)
    with cont[of tu] a1 a2 have ww: "w1 = w" "w2 = w" by simp_all
    obtain q1 v1 where b1: "validateAPIToken_quota flt now req tu w = (q1, v1)" by force
    obtain q2 v2 where b2: "validateAPIToken_quota no_faults now req tu w = (q2, v2)" by force
    from quota_faults[of flt now req tu w] b1 b2 have "q1 = Threw \<or> q1 = q2" by simp
    with a1 a2 s Continue ww b1 b2 show ?thesis
      by (cases q1; cases q2) (auto simp: validateAPIToken_def on_error_def)
  next
    case (Finish st b)
    with a1 a2 s show ?thesis by (simp add: validateAPIToken_def)
  next
    case Threw
    with False a1 show ?thesis by simp
  qed
qed

lemma validate_Next_no_fault:
  "fst (validateAPIToken H flt now req w) = Next ctx \<Longrightarrow>
     \<not> flt SelToken \<and> \<not> flt SelUsage \<and> \<not> flt UpdUltimoUso"
  by (auto simp: validateAPIToken_def validateAPIToken_auth_def missing_token_def lookup_token_def
        validateAPIToken_quota_def on_error_def Let_def
        split: option.splits list.splits if_splits prod.splits step.splits)

text \<open>The answer 500 comes from the catch only, and the catch writes no token row.\<close>

lemma validate_500_frame:
  "fst (validateAPIToken H flt now req w) = Respond 500 ErrorInternoDelServidor \<Longrightarrow>
     api_tokens (snd (validateAPIToken H flt now req w)) = api_tokens w"
  by (auto simp: validateAPIToken_def validateAPIToken_auth_def missing_token_def lookup_token_def
        validateAPIToken_quota_def on_error_def Let_def logSecurityEvent_frame
        split: option.splits list.splits if_splits prod.splits step.splits)

text \<open>
  Two fault patterns that differ at the audit INSERT only give the same answer and the
  same token rows: whether logSecurityEvent could write is never looked at.
\<close>

lemma auth_audit_independent:
  assumes "flt SelToken = flt' SelToken" "flt UpdExpirado = flt' UpdExpirado"
  shows "fst (validateAPIToken_auth H flt now req w) = fst (validateAPIToken_auth H flt' now req w)
       \<and> api_tokens (snd (validateAPIToken_auth H flt now req w))
           = api_tokens (snd (validateAPIToken_auth H flt' now req w))
       \<and> (\<forall>tu. fst (validateAPIToken_auth H flt now req w) = Continue tu \<longrightarrow>
            snd (validateAPIToken_auth H flt now req w) = w \<and>
            snd (validateAPIToken_auth H flt' now req w) = w)"
  using assms
  by (auto simp: validateAPIToken_auth_def missing_token_def lookup_token_def logSecurityEvent_frame
           split: option.splits list.splits)

lemma quota_audit_independent:
  assumes "flt SelUsage = flt' SelUsage" "flt UpdUltimoUso = flt' UpdUltimoUso"
  shows "fst (validateAPIToken_quota flt now req tu w) = fst (validateAPIToken_quota flt' now req tu w)
       \<and> api_tokens (snd (validateAPIToken_quota flt now req tu w))
           = api_tokens (snd (validateAPIToken_quota flt' now req tu w))"
  using assms
  by (auto simp: validateAPIToken_quota_def Let_def logSecurityEvent_frame)

lemma validate_audit_independent:
  assumes "\<forall>s. s \<noteq> InsSecurityEvent \<longrightarrow> flt s = flt' s"
  shows "fst (validateAPIToken H flt now req w) = fst (validateAPIToken H flt' now req w)
       \<and> api_tokens (snd (validateAPIToken H flt now req w))
           = api_tokens (snd (validateAPIToken H flt' now req w))"
proof -
  from assms have e: "flt SelToken = flt' SelToken" "flt UpdExpirado = flt' UpdExpirado"
    "flt SelUsage = flt' SelUsage" "flt UpdUltimoUso = flt' UpdUltimoUso"
    by simp_all
  obtain s1 w1 where a1: "validateAPIToken_auth H flt now req w = (s1, w1)" by force
  obtain s2 w2 where a2: "validateAPIToken_auth H flt' now req w = (s2, w2)" by force
  from auth_audit_independent[OF e(1,2), of H now req w] a1 a2
  have s: "s2 = s1" and tk: "api_tokens w1 = api_tokens w2"
    and cont: "\<And>tu. s1 = Continue tu \<Longrightarrow> w1 = w \<and> w2 = w"
    by simp_all
  show ?thesis
  proof (cases s1)
    case (Continue tu)
    with cont[of tu] have ww: "w1 = w" "w2 = w" by simp_all
    obtain q1 v1 where b1: "validateAPIToken_quota flt now req tu w = (q1, v1)" by force
    obtain q2 v2 where b2: "validateAPIToken_quota flt' now req tu w = (q2, v2)" by force
    from quota_audit_independent[OF e(3,4), of now req tu w] b1 b2
    have "q2 = q1" "api_tokens v1 = api_tokens v2" by simp_all
    with a1 a2 s Continue ww b1 b2 show ?thesis
      by (cases q1) (simp_all add: validateAPIToken_def on_error_def logSecurityEvent_frame)
  next
    case (Finish st b)
    with a1 a2 s tk show ?thesis by (simp add: validateAPIToken_def)
  next
    case Threw
    with a1 a2 s tk show ?thesis
      by (simp add: validateAPIToken_def on_error_def logSecurityEvent_frame)
  qed
qed

text \<open>What detectAttacks answers does not depend on what logAttackAttempt could write.\<close>

lemma detectAttacks_answer_any_fault:
  "fst (detectAttacks H flt now req w) = fst (detectAttacks H flt' now req w)"
  by (simp add: detectAttacks_def split: sum.splits option.splits)

text \<open>
  C8, as the code has it. In validateAPIToken an internal failure denies: when the token
  lookup throws, when the expiry update of an expired token throws, when the usage read
  throws, or when the last-use update of a request below its ceiling throws, the answer
  is the generic 500; a request that is answered 500 has changed no token row; whatever
  calls fail, the answer is that 500 or else the answer the request gets when nothing
  fails; and a request is passed on only when the lookup, the usage read and the
  last-use update all succeeded. Failures of the audit writes are swallowed and change no
  answer: two runs of validateAPIToken that differ only in whether the audit INSERT fails
  give the same answer and the same token rows, and the answer of detectAttacks is the
  same whatever statements of logAttackAttempt fail. In checkBlockedIP a failing query is
  swallowed too, and the request is passed on (fail-open), with the store untouched.
\<close>

theorem internal_failure_policy:
  "(req_x_api_key req = Some tok \<and> tok \<noteq> [] \<longrightarrow>
      (flt SelToken \<longrightarrow>
         fst (validateAPIToken H flt now req w) = Respond 500 ErrorInternoDelServidor)
    \<and> (\<not> flt SelToken \<longrightarrow>
         (\<forall>t u rest. select_active_token w (H tok) = (t, u) # rest \<longrightarrow>
            (expired now t \<and> flt UpdExpirado \<longrightarrow>
               fst (validateAPIToken H flt now req w) = Respond 500 ErrorInternoDelServidor)
          \<and> (\<not> expired now t \<and> flt SelUsage \<longrightarrow>
               fst (validateAPIToken H flt now req w) = Respond 500 ErrorInternoDelServidor)
          \<and> (\<not> expired now t \<and> \<not> flt SelUsage
               \<and> currentUsage w (at_usuario_id t) (today now) < at_limite_requests_diario t
               \<and> flt UpdUltimoUso \<longrightarrow>
               fst (validateAPIToken H flt now req w) = Respond 500 ErrorInternoDelServidor))))
   \<and> (fst (validateAPIToken H flt now req w) = Respond 500 ErrorInternoDelServidor \<longrightarrow>
        api_tokens (snd (validateAPIToken H flt now req w)) = api_tokens w)
   \<and> (fst (validateAPIToken H flt now req w) = Respond 500 ErrorInternoDelServidor \<or>
       fst (validateAPIToken H flt now req w) = fst (validateAPIToken H no_faults now req w))
   \<and> (fst (validateAPIToken H flt now req w) = Next ctx \<longrightarrow>
        \<not> flt SelToken \<and> \<not> flt SelUsage \<and> \<not> flt UpdUltimoUso)
   \<and> ((\<forall>s. s \<noteq> InsSecurityEvent \<longrightarrow> flt s = flt' s) \<longrightarrow>
        fst (validateAPIToken H flt now req w) = fst (validateAPIToken H flt' now req w)
        \<and> api_tokens (snd (validateAPIToken H flt now req w))
            = api_tokens (snd (validateAPIToken H flt' now req w)))
   \<and> fst (detectAttacks H flt now req w) = fst (detectAttacks H flt' now req w)
   \<and> (flt SelBlocked \<longrightarrow> checkBlockedIP flt now req w = (Next (), w))"
proof (intro conjI impI allI)
  assume p: "req_x_api_key req = Some tok \<and> tok \<noteq> []" and f: "flt SelToken"
  from p have k: "req_x_api_key req = Some tok" "tok \<noteq> []" by simp_all
  show "fst (validateAPIToken H flt now req w) = Respond 500 ErrorInternoDelServidor"
    by (simp add: validate_fault_lookup[where H = H and flt = flt, OF k f] on_error_500)
next
  fix t u rest
  assume p: "req_x_api_key req = Some tok \<and> tok \<noteq> []" and f: "\<not> flt SelToken"
    and s: "select_active_token w (H tok) = (t, u) # rest"
    and e: "expired now t \<and> flt UpdExpirado"
  from p have k: "req_x_api_key req = Some tok" "tok \<noteq> []" by simp_all
  from e have e': "expired now t" "flt UpdExpirado" by simp_all
  show "fst (validateAPIToken H flt now req w) = Respond 500 ErrorInternoDelServidor"
    by (simp add: validate_fault_expiry[where H = H and flt = flt, OF k f s e'] on_error_500)
next
  fix t u rest
  assume p: "req_x_api_key req = Some tok \<and> tok \<noteq> []" and f: "\<not> flt SelToken"
    and s: "select_active_token w (H tok) = (t, u) # rest"
    and e: "\<not> expired now t \<and> flt SelUsage"
  from p have k: "req_x_api_key req = Some tok" "tok \<noteq> []" by simp_all
  from e have e': "\<not> expired now t" "flt SelUsage" by simp_all
  show "fst (validateAPIToken H flt now req w) = Respond 500 ErrorInternoDelServidor"
    by (simp add: validate_fault_usage[where H = H and flt = flt, OF k f s e'] on_error_500)
next
  fix t u rest
  assume p: "req_x_api_key req = Some tok \<and> tok \<noteq> []" and f: "\<not> flt SelToken"
    and s: "select_active_token w (H tok) = (t, u) # rest"
    and e: "\<not> expired now t \<and> \<not> flt SelUsage
               \<and> currentUsage w (at_usuario_id t) (today now) < at_limite_requests_diario t
               \<and> flt UpdUltimoUso"
  from p have k: "req_x_api_key req = Some tok" "tok \<noteq> []" by simp_all
  from e have e': "\<not> expired now t" "\<not> flt SelUsage"
    "currentUsage w (at_usuario_id t) (today now) < at_limite_requests_diario t"
    "flt UpdUltimoUso" by simp_all
  show "fst (validateAPIToken H flt now req w) = Respond 500 ErrorInternoDelServidor"
    by (simp add: validate_fault_last_use[where H = H and flt = flt, OF k f s e'] on_error_500)
next
  assume "fst (validateAPIToken H flt now req w) = Respond 500 ErrorInternoDelServidor"
  then show "api_tokens (snd (validateAPIToken H flt now req w)) = api_tokens w"
    by (rule validate_500_frame)
next
  show "fst (validateAPIToken H flt now req w) = Respond 500 ErrorInternoDelServidor \<or>
       fst (validateAPIToken H flt now req w) = fst (validateAPIToken H no_faults now req w)"
    by (rule validate_faults)
next
  assume "fst (validateAPIToken H flt now req w) = Next ctx"
  then have n: "\<not> flt SelToken \<and> \<not> flt SelUsage \<and> \<not> flt UpdUltimoUso"
    by (rule validate_Next_no_fault)
  from n show "\<not> flt SelToken" by simp
  from n show "\<not> flt SelUsage" by simp
  from n show "\<not> flt UpdUltimoUso" by simp
next
  assume a: "\<forall>s. s \<noteq> InsSecurityEvent \<longrightarrow> flt s = flt' s"
  from validate_audit_independent[OF a, of H now req w]
  show "fst (validateAPIToken H flt now req w) = fst (validateAPIToken H flt' now req w)"
    by (rule conjunct1)
  from validate_audit_independent[OF a, of H now req w]
  show "api_tokens (snd (validateAPIToken H flt now req w))
          = api_tokens (snd (validateAPIToken H flt' now req w))"
    by (rule conjunct2)
next
  show "fst (detectAttacks H flt now req w) = fst (detectAttacks H flt' now req w)"
    by (rule detectAttacks_answer_any_fault)
next
  assume "flt SelBlocked"
  then show "checkBlockedIP flt now req w = (Next (), w)"
    by (simp add: checkBlockedIP_def)
qed

text \<open>
  On \<open>world_auth\<close> at instant 1000. The live token is answered 500 when the whole store
  is unreachable, when only the usage read fails and when only the last-use update
  fails, and the expired token is answered 500 when only its expiry update fails; in
  each case the token rows are as they were. With only the audit INSERT failing the
  expired token is answered 401 as it is without faults, and the live token is passed
  on when nothing fails. The blocked address of \<open>world_blocked\<close> passes the block check
  when the store is unreachable.
\<close>

theorem internal_failure_policy_witness:
  "fst (validateAPIToken digest0 storage_down 1000 (api_request (Some ''fp_live'')) world_auth)
     = Respond 500 ErrorInternoDelServidor
   \<and> api_tokens (snd (validateAPIToken digest0 storage_down 1000 (api_request (Some ''fp_live'')) world_auth))
     = api_tokens world_auth
   \<and> fst (validateAPIToken digest0 (\<lambda>s. s = UpdExpirado) 1000 (api_request (Some ''fp_old'')) world_auth)
     = Respond 500 ErrorInternoDelServidor
   \<and> api_tokens (snd (validateAPIToken digest0 (\<lambda>s. s = UpdExpirado) 1000
        (api_request (Some ''fp_old'')) world_auth)) = api_tokens world_auth
   \<and> fst (validateAPIToken digest0 (\<lambda>s. s = SelUsage) 1000 (api_request (Some ''fp_live'')) world_auth)
     = Respond 500 ErrorInternoDelServidor
   \<and> fst (validateAPIToken digest0 (\<lambda>s. s = UpdUltimoUso) 1000 (api_request (Some ''fp_live'')) world_auth)
     = Respond 500 ErrorInternoDelServidor
   \<and> fst (validateAPIToken digest0 (\<lambda>s. s = InsSecurityEvent) 1000 (api_request (Some ''fp_old'')) world_auth)
     = Respond 401 ApiTokenExpirado
   \<and> is_Next (fst (validateAPIToken digest0 no_faults 1000 (api_request (Some ''fp_live'')) world_auth))
   \<and> checkBlockedIP storage_down 1000 (api_request None) world_blocked = (Next (), world_blocked)"
proof -
  let ?live = "token_row 1 1 (digest0 ''fp_live'') 1000 None"
  let ?old = "token_row 2 1 (digest0 ''fp_old'') 1000 (Some 500)"
  have key: "\<And>k. req_x_api_key (api_request (Some k)) = Some k"
    by (simp add: api_request_def)
  have s_old: "select_active_token world_auth (digest0 ''fp_old'') = [(?old, usuario_activo)]"
    and s_live: "select_active_token world_auth (digest0 ''fp_live'') = [(?live, usuario_activo)]"
    by (simp_all add: select_active_token_def example_defs)
  have e_old: "expired 1000 ?old" and e_live: "\<not> expired 1000 ?live"
    by (simp_all add: expired_def token_row_def)
  have u_live: "currentUsage world_auth (at_usuario_id ?live) (today 1000) < at_limite_requests_diario ?live"
    by (simp add: currentUsage_def today_def example_defs)
  from internal_failure_policy[where H = digest0 and flt = storage_down and now = 1000
         and req = "api_request (Some ''fp_live'')" and w = world_auth and tok = "''fp_live''"] key
  have c1: "fst (validateAPIToken digest0 storage_down 1000 (api_request (Some ''fp_live'')) world_auth)
     = Respond 500 ErrorInternoDelServidor"
    by (simp add: storage_down_def)
  from internal_failure_policy[where H = digest0 and flt = storage_down and now = 1000
         and req = "api_request (Some ''fp_live'')" and w = world_auth] c1
  have c1': "api_tokens (snd (validateAPIToken digest0 storage_down 1000
        (api_request (Some ''fp_live'')) world_auth)) = api_tokens world_auth"
    by blast
  from internal_failure_policy[where H = digest0 and flt = "\<lambda>s. s = UpdExpirado" and now = 1000
         and req = "api_request (Some ''fp_old'')" and w = world_auth and tok = "''fp_old''"]
    key s_old e_old
  have c2: "fst (validateAPIToken digest0 (\<lambda>s. s = UpdExpirado) 1000 (api_request (Some ''fp_old'')) world_auth)
     = Respond 500 ErrorInternoDelServidor"
    by simp
  from internal_failure_policy[where H = digest0 and flt = "\<lambda>s. s = UpdExpirado" and now = 1000
         and req = "api_request (Some ''fp_old'')" and w = world_auth] c2
  have c2': "api_tokens (snd (validateAPIToken digest0 (\<lambda>s. s = UpdExpirado) 1000
        (api_request (Some ''fp_old'')) world_auth)) = api_tokens world_auth"
    by blast
  from internal_failure_policy[where H = digest0 and flt = "\<lambda>s. s = SelUsage" and now = 1000
         and req = "api_request (Some ''fp_live'')" and w = world_auth and tok = "''fp_live''"]
    key s_live e_live
  have c3: "fst (validateAPIToken digest0 (\<lambda>s. s = SelUsage) 1000 (api_request (Some ''fp_live'')) world_auth)
     = Respond 500 ErrorInternoDelServidor"
    by simp
  from internal_failure_policy[where H = digest0 and flt = "\<lambda>s. s = UpdUltimoUso" and now = 1000
         and req = "api_request (Some ''fp_live'')" and w = world_auth and tok = "''fp_live''"]
    key s_live e_live u_live
  have c4: "fst (validateAPIToken digest0 (\<lambda>s. s = UpdUltimoUso) 1000 (api_request (Some ''fp_live'')) world_auth)
     = Respond 500 ErrorInternoDelServidor"
    by simp
  have b: "fst (validateAPIToken digest0 no_faults 1000 (api_request (Some ''fp_old'')) world_auth)
     = Respond 401 ApiTokenExpirado"
    by (simp add: validateAPIToken_def validateAPIToken_auth_def lookup_token_def
          select_active_token_def expired_def example_defs)
  have d: "\<forall>s. s \<noteq> InsSecurityEvent \<longrightarrow> (s = InsSecurityEvent) = no_faults s"
    by (simp add: no_faults_def)
  from internal_failure_policy[where H = digest0 and flt = "\<lambda>s. s = InsSecurityEvent"
         and flt' = no_faults and now = 1000
         and req = "api_request (Some ''fp_old'')" and w = world_auth] d b
  have c5: "fst (validateAPIToken digest0 (\<lambda>s. s = InsSecurityEvent) 1000
                   (api_request (Some ''fp_old'')) world_auth) = Respond 401 ApiTokenExpirado"
    by simp
  have n: "fst (validateAPIToken digest0 no_faults 1000 (api_request (Some ''fp_live'')) world_auth)
     = Next \<lparr>ac_apiToken = ?live, ac_user = \<lparr>uc_id = at_usuario_id ?live, uc_rol = u_rol usuario_activo\<rparr>\<rparr>"
    by (simp add: validateAPIToken_def validateAPIToken_auth_def lookup_token_def
          validateAPIToken_quota_def select_active_token_def expired_def currentUsage_def
          Let_def example_defs)
  from internal_failure_policy[where H = digest0 and flt = no_faults and now = 1000
         and req = "api_request (Some ''fp_live'')" and w = world_auth
         and ctx = "\<lparr>ac_apiToken = ?live,
                     ac_user = \<lparr>uc_id = at_usuario_id ?live, uc_rol = u_rol usuario_activo\<rparr>\<rparr>"] n
  have "\<not> no_faults SelToken \<and> \<not> no_faults SelUsage \<and> \<not> no_faults UpdUltimoUso"
    by blast
  with n have c6: "is_Next (fst (validateAPIToken digest0 no_faults 1000
                                 (api_request (Some ''fp_live'')) world_auth))"
    by (simp add: is_Next_def)
  from internal_failure_policy[where H = digest0 and flt = storage_down and now = 1000
         and req = "api_request None" and w = world_blocked]
  have c7: "checkBlockedIP storage_down 1000 (api_request None) world_blocked = (Next (), world_blocked)"
    by (simp add: storage_down_def)
  from c1 c1' c2 c2' c3 c4 c5 c6 c7 show ?thesis by simp
qed

text \<open>
  C8 as stated fails at the block check: the address of \<open>world_blocked\<close> is answered 403
  when the store answers, and is passed on, not denied, when the store is unreachable.
\<close>

theorem checkBlockedIP_fail_open_counterexample:
  "fst (checkBlockedIP no_faults 1000 (api_request None) world_blocked)
     = Respond 403 (IpBloqueada ''manual'' (Some 5000))
   \<and> fst (checkBlockedIP storage_down 1000 (api_request None) world_blocked) = Next ()"
  by (simp add: checkBlockedIP_def active_blocks_def world_blocked_def block_row_def
        api_request_def empty_world_def no_faults_def storage_down_def)

subsection \<open>detectAttacks\<close>

text \<open>
  What the four assignments of the attack type make of the four expressions: the texts
  \<open>SELECT|UNION\<close>, \<open>etc|bin\<close> and \<open>eval|exec\<close> occur in no source (a
  \<open>\b\<close> or a \<open>\/\<close> stands between the words), so only the second detector
  gets a category of its own.
\<close>

lemma attackType_of_patterns:
  "map attackType_of suspiciousPatterns
     = [''malformed_input'', ''xss'', ''malformed_input'', ''malformed_input'']"
  by code_simp

lemma attackType_of_valid:
  "p \<in> set suspiciousPatterns \<Longrightarrow> attackType_of p \<in> set attack_type_check"
proof -
  assume "p \<in> set suspiciousPatterns"
  then have "attackType_of p \<in> set (map attackType_of suspiciousPatterns)" by simp
  then show ?thesis by (auto simp: attackType_of_patterns attack_type_check_def)
qed

lemma upsert_attack_attempts:
  "attack_attempts (upsert_blocked_ip ip r k h n w) = attack_attempts w"
  by (simp add: upsert_blocked_ip_def)

lemma logAttackAttempt_records:
  "\<not> flt InsAttack \<Longrightarrow> ty \<in> set attack_type_check \<Longrightarrow> sev \<in> set severidad_check \<Longrightarrow>
     attack_attempts (logAttackAttempt H flt now ip uid ty sev pl ep m w)
       = attack_attempts w @
         [\<lparr>aa_ip_address = ip, aa_usuario_id = uid, aa_attack_type = ty, aa_severidad = sev,
           aa_payload = pl, aa_payload_hash = H pl, aa_endpoint = ep, aa_metodo_http = m,
           aa_timestamp = now\<rparr>]"
  by (simp add: logAttackAttempt_def insert_attack_attempt_def upsert_attack_attempts Let_def)

text \<open>
  A request whose query string has a key named toString: line 88 throws before any
  detector runs, the middleware neither answers nor passes the request on, and nothing
  is written.
\<close>

lemma detectAttacks_throws:
  "''toString'' \<in> set (req_query_keys req) \<Longrightarrow> detectAttacks H flt now req w = (Inl TypeError, w)"
  by (simp add: detectAttacks_def payload_of_def)

text \<open>
  C4, as the code has it. For a request whose payload text line 88 can build (its query
  string has no key named toString): when one of the four detectors matches the payload
  (for the first one: SELECT, UNION, INSERT, DELETE or DROP as a whole word, in any
  letter case), the request is answered 400 with the one fixed message, which carries
  nothing of the payload or of the detector; and unless the INSERT fails, a row holding
  the address and the whole payload has been added to attack\_attempts when the answer
  is given.
\<close>

theorem detectAttacks_rejects_match:
  assumes "payload_of req = Inr payload"
    and "list_ex (\<lambda>p. p_test p payload) suspiciousPatterns"
  shows "fst (detectAttacks H flt now req w) = Inr (Respond 400 SolicitudMalformadaDetectada)
       \<and> (\<not> flt InsAttack \<longrightarrow>
            (\<exists>a. attack_attempts (snd (detectAttacks H flt now req w)) = attack_attempts w @ [a]
                \<and> aa_ip_address a = req_ip req \<and> aa_payload a = payload
                \<and> aa_timestamp a = now))"
proof -
  from assms(2) obtain p where f: "find (\<lambda>p. p_test p payload) suspiciousPatterns = Some p"
    by (cases "find (\<lambda>p. p_test p payload) suspiciousPatterns")
       (auto simp: find_None_iff list_ex_iff)
  then have "p \<in> set suspiciousPatterns"
    by (auto simp: find_Some_iff)
  then have v: "attackType_of p \<in> set attack_type_check" by (rule attackType_of_valid)
  have s: "''alta'' \<in> set severidad_check" by (simp add: severidad_check_def)
  from f assms(1)
  have r: "fst (detectAttacks H flt now req w) = Inr (Respond 400 SolicitudMalformadaDetectada)"
    by (simp add: detectAttacks_def)
  from f assms(1) have w': "snd (detectAttacks H flt now req w)
      = logAttackAttempt H flt now (req_ip req) (map_option uc_id (req_user req)) (attackType_of p)
          ''alta'' payload (req_path req) (req_method req) w"
    by (simp add: detectAttacks_def)
  show ?thesis
  proof (intro conjI impI)
    show "fst (detectAttacks H flt now req w) = Inr (Respond 400 SolicitudMalformadaDetectada)"
      by (rule r)
  next
    assume "\<not> flt InsAttack"
    with v s w' show "\<exists>a. attack_attempts (snd (detectAttacks H flt now req w)) = attack_attempts w @ [a]
                \<and> aa_ip_address a = req_ip req \<and> aa_payload a = payload
                \<and> aa_timestamp a = now"
      by (simp add: logAttackAttempt_records)
  qed
qed

text \<open>What line 88 makes of the requests used below, which have no query string.\<close>

lemma payload_of_body_request:
  "payload_of (body_request j) = Inr (j @ ''[object Object][object Object]'')"
  by (simp add: payload_of_def body_request_def)

text \<open>The body \<open>{"q":"1 UNION SELECT 1"}\<close> is rejected and recorded.\<close>

theorem detectAttacks_rejects_match_witness:
  "fst (detectAttacks digest0 no_faults 1000 (body_request (json_q ''1 UNION SELECT 1'')) empty_world)
     = Inr (Respond 400 SolicitudMalformadaDetectada)
   \<and> (\<exists>a. attack_attempts (snd (detectAttacks digest0 no_faults 1000
               (body_request (json_q ''1 UNION SELECT 1'')) empty_world)) = [a]
         \<and> aa_ip_address a = ''198.51.100.9''
         \<and> aa_payload a = json_q ''1 UNION SELECT 1'' @ ''[object Object][object Object]'')"
proof -
  have p: "payload_of (body_request (json_q ''1 UNION SELECT 1''))
             = Inr (json_q ''1 UNION SELECT 1'' @ ''[object Object][object Object]'')"
    by (rule payload_of_body_request)
  have m: "list_ex (\<lambda>p. p_test p (json_q ''1 UNION SELECT 1'' @ ''[object Object][object Object]''))
             suspiciousPatterns"
    by code_simp
  have nf: "\<not> no_faults InsAttack" by (simp add: no_faults_def)
  have e: "attack_attempts empty_world = []" by (simp add: empty_world_def)
  have i: "req_ip (body_request (json_q ''1 UNION SELECT 1'')) = ''198.51.100.9''"
    by (simp add: body_request_def)
  from detectAttacks_rejects_match[OF p m, of digest0 no_faults 1000 empty_world] nf e i
  show ?thesis by auto
qed

lemma or_payload_no_match:
  "\<not> list_ex (\<lambda>p. p_test p (json_q or_payload @ ''[object Object][object Object]'')) suspiciousPatterns"
  by code_simp

text \<open>
  C4 as stated fails: the body \<open>{"q":"' OR 1=1 --"}\<close> matches none of the four
  detectors, and the request is passed on with the store untouched, whatever the store,
  the instant and the digest are.
\<close>

theorem detectAttacks_or_payload_counterexample:
  "\<forall>H flt now w. detectAttacks H flt now (body_request (json_q or_payload)) w = (Inr (Next ()), w)"
proof (intro allI)
  fix H flt now w
  from or_payload_no_match
  have "find (\<lambda>p. p_test p (json_q or_payload @ ''[object Object][object Object]'')) suspiciousPatterns
          = None"
    by (simp add: find_None_iff list_ex_iff)
  then show "detectAttacks H flt now (body_request (json_q or_payload)) w = (Inr (Next ()), w)"
    by (simp add: detectAttacks_def payload_of_body_request)
qed

text \<open>
  C5, at a payload that both the SQL detector and the script detector match. The SQL
  detector comes first and decides, and the request is rejected; but the category
  recorded for it is malformed\_input, not sql\_injection.
\<close>

theorem detectAttacks_sql_and_script_category:
  "payload_of (body_request (json_q sql_script_payload))
     = Inr (json_q sql_script_payload @ ''[object Object][object Object]'')
   \<and> test_SQL (json_q sql_script_payload @ ''[object Object][object Object]'')
   \<and> test_XSS (json_q sql_script_payload @ ''[object Object][object Object]'')
   \<and> fst (detectAttacks H no_faults 1000 (body_request (json_q sql_script_payload)) empty_world)
       = Inr (Respond 400 SolicitudMalformadaDetectada)
   \<and> map aa_attack_type (attack_attempts
        (snd (detectAttacks H no_faults 1000 (body_request (json_q sql_script_payload)) empty_world)))
       = [''malformed_input'']"
proof -
  let ?pl = "json_q sql_script_payload @ ''[object Object][object Object]''"
  have p: "payload_of (body_request (json_q sql_script_payload)) = Inr ?pl"
    by (rule payload_of_body_request)
  have a: "test_SQL ?pl"
    by code_simp
  have b: "test_XSS ?pl"
    by code_simp
  from a have f: "find (\<lambda>p. p_test p ?pl) suspiciousPatterns
      = Some \<lparr>p_source = source_SQL, p_test = test_SQL\<rparr>"
    by (simp add: suspiciousPatterns_def)
  have t: "attackType_of \<lparr>p_source = source_SQL, p_test = test_SQL\<rparr> = ''malformed_input''"
    using attackType_of_patterns by (simp add: suspiciousPatterns_def)
  have nf: "\<not> no_faults InsAttack" by (simp add: no_faults_def)
  from f t p have "snd (detectAttacks H no_faults 1000 (body_request (json_q sql_script_payload)) empty_world)
     = logAttackAttempt H no_faults 1000 ''198.51.100.9'' None ''malformed_input'' ''alta''
         ?pl ''/api/consultar'' ''POST'' empty_world"
    by (simp add: detectAttacks_def body_request_def)
  then have c: "map aa_attack_type (attack_attempts
        (snd (detectAttacks H no_faults 1000 (body_request (json_q sql_script_payload)) empty_world)))
       = [''malformed_input'']"
    using nf by (simp add: logAttackAttempt_records attack_type_check_def severidad_check_def
                   empty_world_def)
  from f p have d: "fst (detectAttacks H no_faults 1000 (body_request (json_q sql_script_payload)) empty_world)
       = Inr (Respond 400 SolicitudMalformadaDetectada)"
    by (simp add: detectAttacks_def)
  from p a b c d show ?thesis by simp
qed

subsection \<open>logAttackAttempt: the automatic block\<close>

lemma upsert_keys:
  "map b_ip_address (blocked_ips (upsert_blocked_ip ip r k h n w)) =
     (if ip \<in> set (map b_ip_address (blocked_ips w)) then map b_ip_address (blocked_ips w)
      else map b_ip_address (blocked_ips w) @ [ip])"
proof -
  have "map b_ip_address (map (\<lambda>b. if b_ip_address b = ip
                        then b\<lparr>b_bloqueado_hasta := Some h,
                               b_intentos_fallidos := b_intentos_fallidos b + 1,
                               b_veces_bloqueado := b_veces_bloqueado b + 1\<rparr>
                        else b) rows) = map b_ip_address rows" for rows :: "blocked_ip list"
    by (induction rows) simp_all
  then show ?thesis by (simp add: upsert_blocked_ip_def)
qed

lemma upsert_distinct:
  "distinct (map b_ip_address (blocked_ips w)) \<Longrightarrow>
     distinct (map b_ip_address (blocked_ips (upsert_blocked_ip ip r k h n w)))"
  by (simp add: upsert_keys)

lemma one_row_of_key:
  "distinct (map b_ip_address rows) \<Longrightarrow> ip \<in> set (map b_ip_address rows) \<Longrightarrow>
     length (filter (\<lambda>b. b_ip_address b = ip) rows) = 1"
proof (induction rows)
  case Nil
  then show ?case by simp
next
  case (Cons b rows)
  show ?case
  proof (cases "b_ip_address b = ip")
    case True
    with Cons.prems have "ip \<notin> b_ip_address ` set rows" by simp
    then have "\<And>x. x \<in> set rows \<Longrightarrow> b_ip_address x \<noteq> ip" by blast
    then have "filter (\<lambda>b. b_ip_address b = ip) rows = []"
      by (simp add: filter_empty_conv)
    with True show ?thesis by simp
  next
    case False
    with Cons show ?thesis by simp
  qed
qed

lemma recentAttacks_after_insert:
  "recentAttacks now ip (w\<lparr>attack_attempts := attack_attempts w @ [a]\<rparr>)
     = recentAttacks now ip w + (if aa_ip_address a = ip \<and> now - 3600000 < aa_timestamp a then 1 else 0)"
  by (simp add: recentAttacks_def)

lemma logAttackAttempt_upserts:
  assumes "\<not> flt InsAttack" "\<not> flt SelRecentAttacks" "\<not> flt UpsertBlocked"
    and "ty \<in> set attack_type_check" "sev \<in> set severidad_check"
    and "4 \<le> recentAttacks now ip w"
  shows "blocked_ips (logAttackAttempt H flt now ip uid ty sev pl ep m w)
     = blocked_ips (upsert_blocked_ip ip razon_auto Temporal
                      (now + 86400000) (recentAttacks now ip w + 1) w)"
  using assms
  by (simp add: logAttackAttempt_def insert_attack_attempt_def recentAttacks_after_insert Let_def
        upsert_blocked_ip_def)

text \<open>Before the fifth attack of the hour the block registry is not written.\<close>

lemma logAttackAttempt_below_threshold:
  assumes "recentAttacks now ip w < 4"
  shows "blocked_ips (logAttackAttempt H flt now ip uid ty sev pl ep m w) = blocked_ips w"
  using assms
  by (simp add: logAttackAttempt_def insert_attack_attempt_def recentAttacks_after_insert Let_def)

text \<open>
  C6, as the code has it. When an attack is logged from an address that already has
  four or more attack rows inside the last hour (so from the fifth on), the three
  storage calls succeed and the addresses of the block registry are distinct, then
  afterwards they are still distinct and exactly one row is of that address. If there
  was none, the new row is the last one: kind temporal, expiry now + 24 h, the count of
  recent attacks as failed attempts, times-blocked 1. If there was one, that same row is
  rewritten where it stands: its expiry is set to now + 24 h whatever it was before, its
  two counters grow by one, and its kind and reason stay as they were; the other rows
  are untouched.
\<close>

theorem logAttackAttempt_blocks:
  assumes nf: "\<not> flt InsAttack" "\<not> flt SelRecentAttacks" "\<not> flt UpsertBlocked"
    and ok: "ty \<in> set attack_type_check" "sev \<in> set severidad_check"
    and fifth: "4 \<le> recentAttacks now ip w"
    and uniq: "distinct (map b_ip_address (blocked_ips w))"
  shows "distinct (map b_ip_address (blocked_ips (logAttackAttempt H flt now ip uid ty sev pl ep m w)))
     \<and> length (filter (\<lambda>b. b_ip_address b = ip)
                 (blocked_ips (logAttackAttempt H flt now ip uid ty sev pl ep m w))) = 1
     \<and> (ip \<notin> set (map b_ip_address (blocked_ips w)) \<longrightarrow>
          blocked_ips (logAttackAttempt H flt now ip uid ty sev pl ep m w)
            = blocked_ips w @ [first_block now ip (recentAttacks now ip w + 1)])
     \<and> (ip \<in> set (map b_ip_address (blocked_ips w)) \<longrightarrow>
          blocked_ips (logAttackAttempt H flt now ip uid ty sev pl ep m w)
            = map (\<lambda>b. if b_ip_address b = ip then reblock now b else b) (blocked_ips w))"
proof -
  let ?u = "upsert_blocked_ip ip razon_auto Temporal
              (now + 86400000) (recentAttacks now ip w + 1) w"
  have eq: "blocked_ips (logAttackAttempt H flt now ip uid ty sev pl ep m w) = blocked_ips ?u"
    using nf ok fifth by (rule logAttackAttempt_upserts)
  have d: "distinct (map b_ip_address (blocked_ips ?u))"
    using uniq by (rule upsert_distinct)
  have k: "ip \<in> set (map b_ip_address (blocked_ips ?u))"
    by (simp add: upsert_keys)
  have one: "length (filter (\<lambda>b. b_ip_address b = ip) (blocked_ips ?u)) = 1"
    using d k by (rule one_row_of_key)
  have new: "ip \<notin> set (map b_ip_address (blocked_ips w)) \<longrightarrow>
      blocked_ips ?u = blocked_ips w @ [first_block now ip (recentAttacks now ip w + 1)]"
    by (simp add: upsert_blocked_ip_def first_block_def)
  have old: "ip \<in> set (map b_ip_address (blocked_ips w)) \<longrightarrow>
      blocked_ips ?u = map (\<lambda>b. if b_ip_address b = ip then reblock now b else b) (blocked_ips w)"
    by (simp add: upsert_blocked_ip_def reblock_def)
  from eq d one new old show ?thesis by simp
qed

lemma world_attacked_facts:
  "recentAttacks 5000 ''198.51.100.9'' world_attacked = 4"
  "recentAttacks 5000 ''192.0.2.44'' world_attacked = 4"
  "recentAttacks 5000 ''192.0.2.77'' world_attacked = 4"
  "map b_ip_address (blocked_ips world_attacked) = [''192.0.2.44'', ''192.0.2.77'']"
  by (simp_all add: recentAttacks_def world_attacked_def attack_row_def empty_world_def block_row_def)

text \<open>
  On \<open>world_attacked\<close> at instant 5000 the fifth attack of the first address adds its
  row, and the fifth attack of the second address rewrites the row it has.
\<close>

theorem logAttackAttempt_blocks_witness:
  "blocked_ips (logAttackAttempt digest0 no_faults 5000 ''198.51.100.9'' None ''xss'' ''alta''
       ''<script>x</script>'' ''/api/consultar'' ''POST'' world_attacked)
     = [block_row ''192.0.2.44'' Escalado (Some 604800000),
        block_row ''192.0.2.77'' Escalado (Some 100), first_block 5000 ''198.51.100.9'' 5]
   \<and> blocked_ips (logAttackAttempt digest0 no_faults 5000 ''192.0.2.44'' None ''xss'' ''alta''
       ''<script>x</script>'' ''/api/consultar'' ''POST'' world_attacked)
     = [reblock 5000 (block_row ''192.0.2.44'' Escalado (Some 604800000)),
        block_row ''192.0.2.77'' Escalado (Some 100)]"
proof -
  have nf: "\<not> no_faults InsAttack" "\<not> no_faults SelRecentAttacks" "\<not> no_faults UpsertBlocked"
    by (simp_all add: no_faults_def)
  have ok: "''xss'' \<in> set attack_type_check" "''alta'' \<in> set severidad_check"
    by (simp_all add: attack_type_check_def severidad_check_def)
  have f1: "4 \<le> recentAttacks 5000 ''198.51.100.9'' world_attacked"
    and f2: "4 \<le> recentAttacks 5000 ''192.0.2.44'' world_attacked"
    by (simp_all add: world_attacked_facts)
  have u: "distinct (map b_ip_address (blocked_ips world_attacked))"
    by (simp add: world_attacked_facts)
  have b: "blocked_ips world_attacked = [block_row ''192.0.2.44'' Escalado (Some 604800000),
                                         block_row ''192.0.2.77'' Escalado (Some 100)]"
    by (simp add: world_attacked_def empty_world_def)
  from logAttackAttempt_blocks[OF nf ok f1 u, of digest0 None "''<script>x</script>''"
         "''/api/consultar''" "''POST''"]
  have c1: "blocked_ips (logAttackAttempt digest0 no_faults 5000 ''198.51.100.9'' None ''xss'' ''alta''
       ''<script>x</script>'' ''/api/consultar'' ''POST'' world_attacked)
     = [block_row ''192.0.2.44'' Escalado (Some 604800000),
        block_row ''192.0.2.77'' Escalado (Some 100), first_block 5000 ''198.51.100.9'' 5]"
    by (simp add: world_attacked_facts b block_row_def)
  from logAttackAttempt_blocks[OF nf ok f2 u, of digest0 None "''<script>x</script>''"
         "''/api/consultar''" "''POST''"]
  have c2: "blocked_ips (logAttackAttempt digest0 no_faults 5000 ''192.0.2.44'' None ''xss'' ''alta''
       ''<script>x</script>'' ''/api/consultar'' ''POST'' world_attacked)
     = [reblock 5000 (block_row ''192.0.2.44'' Escalado (Some 604800000)),
        block_row ''192.0.2.77'' Escalado (Some 100)]"
    by (simp add: world_attacked_facts b block_row_def)
  from c1 c2 show ?thesis by simp
qed

text \<open>
  C6 as stated fails on \<open>world_attacked\<close> at instant 5000. The address 192.0.2.77 has
  an escalated row that ended at 100: its fifth attack renews that row, which stays
  escalated, not temporary. The address 192.0.2.44 has an escalated row that expires
  at 604800000: its fifth attack moves the expiry back to 86405000.
\<close>

theorem logAttackAttempt_reblock_counterexample:
  "blocked_ips world_attacked
     = [\<lparr>b_ip_address = ''192.0.2.44'', b_razon = ''manual'', b_tipo_bloqueo = Escalado,
         b_bloqueado_hasta = Some 604800000, b_intentos_fallidos = 0, b_veces_bloqueado = 1\<rparr>,
        \<lparr>b_ip_address = ''192.0.2.77'', b_razon = ''manual'', b_tipo_bloqueo = Escalado,
         b_bloqueado_hasta = Some 100, b_intentos_fallidos = 0, b_veces_bloqueado = 1\<rparr>]
   \<and> recentAttacks 5000 ''192.0.2.77'' world_attacked = 4
   \<and> blocked_ips (logAttackAttempt digest0 no_faults 5000 ''192.0.2.77'' None ''xss'' ''alta''
       ''<script>x</script>'' ''/api/consultar'' ''POST'' world_attacked)
     = [\<lparr>b_ip_address = ''192.0.2.44'', b_razon = ''manual'', b_tipo_bloqueo = Escalado,
         b_bloqueado_hasta = Some 604800000, b_intentos_fallidos = 0, b_veces_bloqueado = 1\<rparr>,
        \<lparr>b_ip_address = ''192.0.2.77'', b_razon = ''manual'', b_tipo_bloqueo = Escalado,
         b_bloqueado_hasta = Some 86405000, b_intentos_fallidos = 1, b_veces_bloqueado = 2\<rparr>]
   \<and> recentAttacks 5000 ''192.0.2.44'' world_attacked = 4
   \<and> blocked_ips (logAttackAttempt digest0 no_faults 5000 ''192.0.2.44'' None ''xss'' ''alta''
       ''<script>x</script>'' ''/api/consultar'' ''POST'' world_attacked)
     = [\<lparr>b_ip_address = ''192.0.2.44'', b_razon = ''manual'', b_tipo_bloqueo = Escalado,
         b_bloqueado_hasta = Some 86405000, b_intentos_fallidos = 1, b_veces_bloqueado = 2\<rparr>,
        \<lparr>b_ip_address = ''192.0.2.77'', b_razon = ''manual'', b_tipo_bloqueo = Escalado,
         b_bloqueado_hasta = Some 100, b_intentos_fallidos = 0, b_veces_bloqueado = 1\<rparr>]"
  by (simp add: logAttackAttempt_def insert_attack_attempt_def recentAttacks_def Let_def
        upsert_blocked_ip_def world_attacked_def attack_row_def empty_world_def block_row_def
        no_faults_def attack_type_check_def severidad_check_def digest0_def)

subsection \<open>GET /public/consultar: the quota gate\<close>

lemmas eval_defs = publicConsultar_def publicConsultar_try_def publicConsultar_catch_def
  select_active_token_def charge_usage_def update_api_token_def log_request_def
  insert_security_event_def security_events_columns_def evento_tipo_check_def severidad_check_def
  isDigit_def Let_def

lemma log_request_frame:
  "api_tokens (log_request uid tid ruc st ip w) = api_tokens w"
  "python_calls (log_request uid tid ruc st ip w) = python_calls w"
  "limits_usage (log_request uid tid ruc st ip w) = limits_usage w"
  by (simp_all add: log_request_def)

lemma publicConsultar_catch_frame:
  "api_tokens (snd (publicConsultar_catch H flt err ip token ruc w)) = api_tokens w"
  "python_calls (snd (publicConsultar_catch H flt err ip token ruc w)) = python_calls w"
  "limits_usage (snd (publicConsultar_catch H flt err ip token ruc w)) = limits_usage w"
  by (simp_all add: publicConsultar_catch_def Let_def log_request_frame split: option.splits list.splits)

text \<open>
  The INSERT that logs an exceeded limit names the column detalles, which the table
  security\_events does not have (and the event type limite\_excedido, which its CHECK
  does not list): the store refuses it, whatever the row and the store are.
\<close>

lemma limite_insert_refused:
  "insert_security_event
     [''ip_address'', ''usuario_id'', ''evento_tipo'', ''severidad'', ''endpoint'', ''detalles''] ev w = None"
  by (simp add: insert_security_event_def security_events_columns_def)

lemma publicConsultar_try_exceeded:
  assumes "select_active_token w (H token) = (tokenData, u) # rest"
    and "at_limite_requests_diario tokenData \<le> at_requests_utilizados_hoy tokenData"
  shows "snd (publicConsultar_try H flt now py ip token ruc w) = w"
  using assms by (simp add: publicConsultar_try_def limite_insert_refused)

text \<open>
  C10. Whenever the token resolved for the request has used its ceiling (the quota
  check fails), the handler leaves every row of api\_tokens as it was: today's count,
  the lifetime count and the last-use fields keep their values, and no call is made to
  the downstream service. This holds for every answer the handler then gives, and
  whatever storage call fails.
\<close>

theorem publicConsultar_quota_exceeded_frame:
  assumes "select_active_token w (H token) = (tokenData, u) # rest"
    and "at_limite_requests_diario tokenData \<le> at_requests_utilizados_hoy tokenData"
  shows "api_tokens (snd (publicConsultar H flt now py ip token ruc w)) = api_tokens w
       \<and> python_calls (snd (publicConsultar H flt now py ip token ruc w)) = python_calls w"
proof -
  obtain s w1 where t: "publicConsultar_try H flt now py ip token ruc w = (s, w1)" by force
  with assms publicConsultar_try_exceeded[of w H token tokenData u rest flt now py ip ruc]
  have w1: "w1 = w" by simp
  show ?thesis
  proof (cases s)
    case (PDone st b)
    with t w1 show ?thesis by (simp add: publicConsultar_def)
  next
    case (PThrew err)
    with t w1 show ?thesis by (simp add: publicConsultar_def publicConsultar_catch_frame)
  qed
qed

text \<open>A token with ceiling 3 and 3 used: its row and the downstream stay untouched.\<close>

theorem publicConsultar_quota_exceeded_frame_witness:
  "api_tokens (snd (publicConsultar digest0 no_faults 1000 PyOk ''203.0.113.7'' ''fp_live'' ruc0 world_spent))
     = api_tokens world_spent
   \<and> python_calls (snd (publicConsultar digest0 no_faults 1000 PyOk ''203.0.113.7'' ''fp_live'' ruc0 world_spent))
     = []"
proof -
  have s: "select_active_token world_spent (digest0 ''fp_live'')
      = ((token_row 1 1 (digest0 ''fp_live'') 3 None)
           \<lparr>at_requests_utilizados_hoy := 3, at_total_requests_historico := 40,
            at_ultimo_uso := Some 900\<rparr>, usuario_activo) # []"
    by (simp add: select_active_token_def world_spent_def example_defs)
  have q: "at_limite_requests_diario ((token_row 1 1 (digest0 ''fp_live'') 3 None)
           \<lparr>at_requests_utilizados_hoy := 3, at_total_requests_historico := 40,
            at_ultimo_uso := Some 900\<rparr>)
        \<le> at_requests_utilizados_hoy ((token_row 1 1 (digest0 ''fp_live'') 3 None)
           \<lparr>at_requests_utilizados_hoy := 3, at_total_requests_historico := 40,
            at_ultimo_uso := Some 900\<rparr>)"
    by (simp add: token_row_def)
  have p: "python_calls world_spent = []" by (simp add: world_spent_def empty_world_def)
  from publicConsultar_quota_exceeded_frame[of world_spent digest0 "''fp_live''" _ usuario_activo "[]",
         OF s q, of no_faults 1000 PyOk "''203.0.113.7''" ruc0] p
  show ?thesis by simp
qed

text \<open>What the handler answers when the quota check fails: the catch's 500, not 429.\<close>

lemma publicConsultar_exceeded_500:
  assumes "startsWith token ''fp_''" "list_all isDigit ruc" "length ruc = 10 \<or> length ruc = 13"
    and "select_active_token w (H token) = (tokenData, u) # rest"
    and "at_limite_requests_diario tokenData \<le> at_requests_utilizados_hoy tokenData"
  shows "fst (publicConsultar H flt now py ip token ruc w) = (500, ErrorInternoNoSePudoProcesar)"
proof -
  from assms(1) have "token \<noteq> []" by (cases token) auto
  moreover from assms(3) have "ruc \<noteq> []" by auto
  ultimately have "fst (publicConsultar_try H flt now py ip token ruc w) = PThrew None"
    using assms by (simp add: publicConsultar_try_def limite_insert_refused)
  then show ?thesis
    by (cases "publicConsultar_try H flt now py ip token ruc w")
       (simp add: publicConsultar_def publicConsultar_catch_def Let_def)
qed

lemma serve4:
  "serve f [a, b, c, d] w =
     (case f a w of (r1, w1) \<Rightarrow> case f b w1 of (r2, w2) \<Rightarrow> case f c w2 of (r3, w3) \<Rightarrow>
        case f d w3 of (r4, w4) \<Rightarrow> ([r1, r2, r3, r4], w4))"
  by (simp split: prod.splits)

text \<open>
  C1, on the code. The owner's only active token has ceiling 3 and nothing used; four
  requests follow one another, the downstream service answering each one it gets. On
  the public endpoint the first three are handed to the downstream service and answered
  200; the fourth is denied, but with the catch's 500 and its generic body, not with
  429 and the ceiling and usage: the INSERT that logs the exceeded limit is refused and
  throws before the 429 is sent. Through validateAPIToken all four are passed on: no
  statement increments the usage it reads.
\<close>

theorem four_requests_ceiling_three:
  "fst (serve (\<lambda>now. publicConsultar H no_faults now PyOk ''203.0.113.7'' ''fp_live'' ruc0)
          [1000, 2000, 3000, 4000] (world_quota H))
     = [(200, ConsultaData 2 3), (200, ConsultaData 1 3), (200, ConsultaData 0 3),
        (500, ErrorInternoNoSePudoProcesar)]
   \<and> python_calls (snd (serve (\<lambda>now. publicConsultar H no_faults now PyOk ''203.0.113.7'' ''fp_live'' ruc0)
          [1000, 2000, 3000, 4000] (world_quota H)))
     = [(''fp_live'', ruc0), (''fp_live'', ruc0), (''fp_live'', ruc0)]
   \<and> map is_Next (fst (serve (\<lambda>now. validateAPIToken H no_faults now (api_request (Some ''fp_live'')))
          [1000, 2000, 3000, 4000] (world_quota H)))
     = [True, True, True, True]"
proof -
  have a: "fst (serve (\<lambda>now. publicConsultar H no_faults now PyOk ''203.0.113.7'' ''fp_live'' ruc0)
          [1000, 2000, 3000, 4000] (world_quota H))
     = [(200, ConsultaData 2 3), (200, ConsultaData 1 3), (200, ConsultaData 0 3),
        (500, ErrorInternoNoSePudoProcesar)]"
    by (simp add: serve4 eval_defs world_quota_def ruc0_def example_defs)
  have b: "python_calls (snd (serve (\<lambda>now. publicConsultar H no_faults now PyOk ''203.0.113.7'' ''fp_live'' ruc0)
          [1000, 2000, 3000, 4000] (world_quota H)))
     = [(''fp_live'', ruc0), (''fp_live'', ruc0), (''fp_live'', ruc0)]"
    by (simp add: serve4 eval_defs world_quota_def ruc0_def example_defs)
  have c: "map is_Next (fst (serve (\<lambda>now. validateAPIToken H no_faults now (api_request (Some ''fp_live'')))
          [1000, 2000, 3000, 4000] (world_quota H)))
     = [True, True, True, True]"
    by (simp add: serve4 validateAPIToken_def validateAPIToken_auth_def lookup_token_def
          validateAPIToken_quota_def select_active_token_def expired_def currentUsage_def today_def
          update_api_token_def is_Next_def world_quota_def example_defs Let_def)
  from a b c show ?thesis by simp
qed

text \<open>validateAPIToken never writes the owner's daily counter.\<close>

lemma validateAPIToken_limits_usage:
  "limits_usage (snd (validateAPIToken H flt now req w)) = limits_usage w"
  by (auto simp: validateAPIToken_def validateAPIToken_auth_def missing_token_def lookup_token_def
        validateAPIToken_quota_def on_error_def Let_def logSecurityEvent_frame update_api_token_def
        split: option.splits list.splits prod.splits step.splits)

text \<open>
  The two steps of the public handler, run one right after the other on the same store
  and at the same instant, are the handler.
\<close>

lemma publicConsultar_steps:
  "publicConsultar H flt now py ip token ruc w =
     (case publicConsultar_check H flt now ip token ruc w of
        (d, w1) \<Rightarrow> publicConsultar_resume H flt now py ip token ruc d w1)"
  by (simp add: publicConsultar_def publicConsultar_try_def publicConsultar_check_def
        publicConsultar_resume_def publicConsultar_charge_def
        split: list.splits option.splits)

lemma check_admits:
  assumes "startsWith token ''fp_''" "list_all isDigit ruc" "length ruc = 10 \<or> length ruc = 13"
    and "\<not> flt PubSelToken"
    and "select_active_token w (H token) = (tokenData, u) # rest"
    and "at_requests_utilizados_hoy tokenData < at_limite_requests_diario tokenData"
  shows "publicConsultar_check H flt now ip token ruc w = (Admitted tokenData, w)"
proof -
  from assms(1) have "token \<noteq> []" by (cases token) auto
  moreover from assms(3) have "ruc \<noteq> []" by auto
  ultimately show ?thesis using assms by (simp add: publicConsultar_check_def)
qed

lemma resume_admitted:
  assumes "\<not> flt PubUpdUso"
  shows "api_tokens (snd (publicConsultar_resume H flt now py ip token ruc (Admitted td) w))
           = map (\<lambda>t. if at_id t = at_id td then charged now t else t) (api_tokens w)"
    and "python_calls (snd (publicConsultar_resume H flt now py ip token ruc (Admitted td) w))
           = python_calls w @ [(token, ruc)]"
    and "limits_usage (snd (publicConsultar_resume H flt now py ip token ruc (Admitted td) w))
           = limits_usage w"
  using assms
  by (cases py; simp add: publicConsultar_resume_def publicConsultar_charge_def Let_def
        publicConsultar_catch_frame log_request_frame charge_usage_def update_api_token_def
        charged_def)+

lemma charged_twice:
  "map (\<lambda>t. if at_id t = i then charged b t else t)
     (map (\<lambda>t. if at_id t = i then charged a t else t) rows)
   = map (\<lambda>t. if at_id t = i then charged b (charged a t) else t) rows"
  by (induction rows) (simp_all add: charged_def)

text \<open>
  C2, as the code has it. On the public endpoint, a well-formed request whose resolved
  token has used less than its ceiling, and whose lookup and usage update succeed, is
  admitted: the token's count of today and its lifetime count grow by one, its last-use
  instant is set to now, and the request is handed to the downstream service. The
  owner's daily counter, limits\_usage, is not written. The check and the increment are
  not one operation: the handler is its check followed by what it runs from the UPDATE
  on, and when two such requests both run their checks before either goes on, both are
  admitted, both are handed to the downstream service, and the token's counts grow by
  two, whatever the ceiling is: the row that was read with one request left under its
  ceiling ends above it. In validateAPIToken, a request with a resolved,
  unexpired token whose owner's recorded usage is below the ceiling (the storage calls
  succeeding) gets the token's last-use instant, address and user agent updated and is
  passed on with the token, the owner's id and role; no counter is changed.
\<close>

theorem publicConsultar_admits_and_charges:
  assumes fmt: "startsWith token ''fp_''" "list_all isDigit ruc" "length ruc = 10 \<or> length ruc = 13"
    and nf: "\<not> flt PubSelToken" "\<not> flt PubUpdUso"
    and sel: "select_active_token w (H token) = (tokenData, u) # rest"
    and lt: "at_requests_utilizados_hoy tokenData < at_limite_requests_diario tokenData"
  shows "api_tokens (snd (publicConsultar H flt now py ip token ruc w))
           = map (\<lambda>t. if at_id t = at_id tokenData then charged now t else t) (api_tokens w)
       \<and> python_calls (snd (publicConsultar H flt now py ip token ruc w))
           = python_calls w @ [(token, ruc)]
       \<and> limits_usage (snd (publicConsultar H flt now py ip token ruc w)) = limits_usage w
       \<and> publicConsultar H flt now py ip token ruc w
           = (case publicConsultar_check H flt now ip token ruc w of
                (d, w1) \<Rightarrow> publicConsultar_resume H flt now py ip token ruc d w1)
       \<and> api_tokens (snd (publicConsultar_interleaved H flt t1 t2 t3 t4 py py' ip token ruc w))
           = map (\<lambda>t. if at_id t = at_id tokenData then charged t4 (charged t3 t) else t)
               (api_tokens w)
       \<and> python_calls (snd (publicConsultar_interleaved H flt t1 t2 t3 t4 py py' ip token ruc w))
           = python_calls w @ [(token, ruc), (token, ruc)]
       \<and> charged t4 (charged t3 tokenData)
           \<in> set (api_tokens (snd (publicConsultar_interleaved H flt t1 t2 t3 t4 py py' ip token ruc w)))
       \<and> at_requests_utilizados_hoy (charged t4 (charged t3 tokenData))
           = at_requests_utilizados_hoy tokenData + 2
       \<and> (req_x_api_key req = Some tok \<and> tok \<noteq> [] \<and> \<not> flt SelToken \<and> \<not> flt SelUsage
            \<and> \<not> flt UpdUltimoUso \<and> select_active_token w (H tok) = (t, v) # rest'
            \<and> \<not> expired now t
            \<and> currentUsage w (at_usuario_id t) (today now) < at_limite_requests_diario t \<longrightarrow>
            validateAPIToken H flt now req w
              = (Next \<lparr>ac_apiToken = t, ac_user = \<lparr>uc_id = at_usuario_id t, uc_rol = u_rol v\<rparr>\<rparr>,
                 w\<lparr>api_tokens := map (\<lambda>x. if at_id x = at_id t then touched now req x else x)
                                      (api_tokens w)\<rparr>))"
proof (intro conjI impI)
  have ck: "\<And>t. publicConsultar_check H flt t ip token ruc w = (Admitted tokenData, w)"
    using fmt nf(1) sel lt by (rule check_admits)
  have st: "publicConsultar H flt now py ip token ruc w
              = publicConsultar_resume H flt now py ip token ruc (Admitted tokenData) w"
    by (simp add: publicConsultar_steps ck)
  show "api_tokens (snd (publicConsultar H flt now py ip token ruc w))
           = map (\<lambda>t. if at_id t = at_id tokenData then charged now t else t) (api_tokens w)"
    by (simp add: st resume_admitted[where flt = flt, OF nf(2)])
  show "python_calls (snd (publicConsultar H flt now py ip token ruc w))
           = python_calls w @ [(token, ruc)]"
    by (simp add: st resume_admitted[where flt = flt, OF nf(2)])
  show "limits_usage (snd (publicConsultar H flt now py ip token ruc w)) = limits_usage w"
    by (simp add: st resume_admitted[where flt = flt, OF nf(2)])
  show "publicConsultar H flt now py ip token ruc w
           = (case publicConsultar_check H flt now ip token ruc w of
                (d, w1) \<Rightarrow> publicConsultar_resume H flt now py ip token ruc d w1)"
    by (rule publicConsultar_steps)
  have il: "snd (publicConsultar_interleaved H flt t1 t2 t3 t4 py py' ip token ruc w)
      = snd (publicConsultar_resume H flt t4 py' ip token ruc (Admitted tokenData)
               (snd (publicConsultar_resume H flt t3 py ip token ruc (Admitted tokenData) w)))"
    by (simp add: publicConsultar_interleaved_def ck split: prod.splits)
  have "api_tokens (snd (publicConsultar_interleaved H flt t1 t2 t3 t4 py py' ip token ruc w))
           = map (\<lambda>t. if at_id t = at_id tokenData then charged t4 t else t)
               (map (\<lambda>t. if at_id t = at_id tokenData then charged t3 t else t) (api_tokens w))"
    by (simp only: il resume_admitted[where flt = flt, OF nf(2)])
  then show rows: "api_tokens (snd (publicConsultar_interleaved H flt t1 t2 t3 t4 py py' ip token ruc w))
           = map (\<lambda>t. if at_id t = at_id tokenData then charged t4 (charged t3 t) else t)
               (api_tokens w)"
    by (simp only: charged_twice)
  from sel have "(tokenData, u) \<in> set (select_active_token w (H token))" by simp
  then have "tokenData \<in> set (api_tokens w)" by (simp add: select_active_token_set)
  then have "(\<lambda>t. if at_id t = at_id tokenData then charged t4 (charged t3 t) else t) tokenData
               \<in> set (map (\<lambda>t. if at_id t = at_id tokenData then charged t4 (charged t3 t) else t)
                        (api_tokens w))"
    by (simp only: set_map) (rule imageI)
  then show "charged t4 (charged t3 tokenData)
           \<in> set (api_tokens (snd (publicConsultar_interleaved H flt t1 t2 t3 t4 py py' ip token ruc w)))"
    by (simp add: rows)
  show "at_requests_utilizados_hoy (charged t4 (charged t3 tokenData))
           = at_requests_utilizados_hoy tokenData + 2"
    by (simp add: charged_def)
  show "python_calls (snd (publicConsultar_interleaved H flt t1 t2 t3 t4 py py' ip token ruc w))
           = python_calls w @ [(token, ruc), (token, ruc)]"
    by (simp add: il resume_admitted[where flt = flt, OF nf(2)])
next
  assume a: "req_x_api_key req = Some tok \<and> tok \<noteq> [] \<and> \<not> flt SelToken \<and> \<not> flt SelUsage
            \<and> \<not> flt UpdUltimoUso \<and> select_active_token w (H tok) = (t, v) # rest'
            \<and> \<not> expired now t
            \<and> currentUsage w (at_usuario_id t) (today now) < at_limite_requests_diario t"
  then have k: "req_x_api_key req = Some tok" "tok \<noteq> []" "\<not> flt SelToken"
    and s: "select_active_token w (H tok) = (t, v) # rest'"
    and e: "\<not> expired now t" "\<not> flt SelUsage"
    and q: "currentUsage w (at_usuario_id t) (today now) < at_limite_requests_diario t"
      "\<not> flt UpdUltimoUso"
    by simp_all
  show "validateAPIToken H flt now req w
          = (Next \<lparr>ac_apiToken = t, ac_user = \<lparr>uc_id = at_usuario_id t, uc_rol = u_rol v\<rparr>\<rparr>,
             w\<lparr>api_tokens := map (\<lambda>x. if at_id x = at_id t then touched now req x else x)
                                  (api_tokens w)\<rparr>)"
    by (rule validate_hands_on[where H = H and flt = flt, OF k s e q])
qed

text \<open>
  The first request of the day on \<open>world_usage\<close>: the token's counts go from 0 to 1,
  the downstream service is called, and the owner's counter row still says 0. Two
  interleaved requests on the same store are both handed to the downstream service and
  charge the token twice. Through validateAPIToken the same token gets its last-use
  fields and is passed on.
\<close>

theorem publicConsultar_admits_and_charges_witness:
  "api_tokens (snd (publicConsultar digest0 no_faults 1000 PyOk ''203.0.113.7'' ''fp_live'' ruc0 world_usage))
     = [charged 1000 (token_row 1 1 (digest0 ''fp_live'') 3 None)]
   \<and> python_calls (snd (publicConsultar digest0 no_faults 1000 PyOk ''203.0.113.7'' ''fp_live'' ruc0 world_usage))
     = [(''fp_live'', ruc0)]
   \<and> limits_usage (snd (publicConsultar digest0 no_faults 1000 PyOk ''203.0.113.7'' ''fp_live'' ruc0 world_usage))
     = [\<lparr>lu_usuario_id = 1, lu_fecha = 0, lu_requests_count = 0\<rparr>]
   \<and> api_tokens (snd (publicConsultar_interleaved digest0 no_faults 1000 1001 1002 1003 PyOk PyOk
        ''203.0.113.7'' ''fp_live'' ruc0 world_usage))
     = [charged 1003 (charged 1002 (token_row 1 1 (digest0 ''fp_live'') 3 None))]
   \<and> python_calls (snd (publicConsultar_interleaved digest0 no_faults 1000 1001 1002 1003 PyOk PyOk
        ''203.0.113.7'' ''fp_live'' ruc0 world_usage))
     = [(''fp_live'', ruc0), (''fp_live'', ruc0)]
   \<and> validateAPIToken digest0 no_faults 1000 (api_request (Some ''fp_live'')) world_usage
     = (Next \<lparr>ac_apiToken = token_row 1 1 (digest0 ''fp_live'') 3 None,
              ac_user = \<lparr>uc_id = 1, uc_rol = ''cliente''\<rparr>\<rparr>,
        world_usage\<lparr>api_tokens := [touched 1000 (api_request (Some ''fp_live''))
                                       (token_row 1 1 (digest0 ''fp_live'') 3 None)]\<rparr>)"
proof -
  let ?t = "token_row 1 1 (digest0 ''fp_live'') 3 None"
  have fmt: "startsWith ''fp_live'' ''fp_''" "list_all isDigit ruc0" "length ruc0 = 10 \<or> length ruc0 = 13"
    by (simp_all add: ruc0_def isDigit_def)
  have nf: "\<not> no_faults PubSelToken" "\<not> no_faults PubUpdUso" by (simp_all add: no_faults_def)
  have nq: "\<not> no_faults SelToken" "\<not> no_faults SelUsage" "\<not> no_faults UpdUltimoUso"
    by (simp_all add: no_faults_def)
  have s: "select_active_token world_usage (digest0 ''fp_live'') = (?t, usuario_activo) # []"
    by (simp add: select_active_token_def world_usage_def world_quota_def example_defs)
  have lt: "at_requests_utilizados_hoy ?t < at_limite_requests_diario ?t"
    by (simp add: token_row_def)
  have cu: "currentUsage world_usage (at_usuario_id ?t) (today 1000) < at_limite_requests_diario ?t"
    by (simp add: currentUsage_def today_def world_usage_def world_quota_def token_row_def
          empty_world_def)
  have ex: "\<not> expired 1000 ?t" by (simp add: expired_def token_row_def)
  have key: "req_x_api_key (api_request (Some ''fp_live'')) = Some ''fp_live''"
    by (simp add: api_request_def)
  have w: "api_tokens world_usage = [?t]"
      "python_calls world_usage = []"
      "limits_usage world_usage = [\<lparr>lu_usuario_id = 1, lu_fecha = 0, lu_requests_count = 0\<rparr>]"
    by (simp_all add: world_usage_def world_quota_def empty_world_def)
  note T = publicConsultar_admits_and_charges[where H = digest0 and token = "''fp_live''"
         and flt = no_faults and now = 1000 and py = PyOk and py' = PyOk and ip = "''203.0.113.7''"
         and ?t1.0 = 1000 and ?t2.0 = 1001 and ?t3.0 = 1002 and ?t4.0 = 1003
         and t = ?t and v = usuario_activo and rest' = "[]" and tok = "''fp_live''"
         and req = "api_request (Some ''fp_live'')",
         OF fmt nf s lt]
  from T[THEN conjunct1] w
  have c1: "api_tokens (snd (publicConsultar digest0 no_faults 1000 PyOk ''203.0.113.7'' ''fp_live'' ruc0
                world_usage)) = [charged 1000 ?t]"
    by simp
  from T[THEN conjunct2, THEN conjunct1] w
  have c2: "python_calls (snd (publicConsultar digest0 no_faults 1000 PyOk ''203.0.113.7'' ''fp_live'' ruc0
                world_usage)) = [(''fp_live'', ruc0)]"
    by simp
  from T[THEN conjunct2, THEN conjunct2, THEN conjunct1] w
  have c3: "limits_usage (snd (publicConsultar digest0 no_faults 1000 PyOk ''203.0.113.7'' ''fp_live'' ruc0
                world_usage)) = [\<lparr>lu_usuario_id = 1, lu_fecha = 0, lu_requests_count = 0\<rparr>]"
    by simp
  from T[THEN conjunct2, THEN conjunct2, THEN conjunct2, THEN conjunct2, THEN conjunct1] w
  have c4: "api_tokens (snd (publicConsultar_interleaved digest0 no_faults 1000 1001 1002 1003 PyOk PyOk
        ''203.0.113.7'' ''fp_live'' ruc0 world_usage)) = [charged 1003 (charged 1002 ?t)]"
    by simp
  from T[THEN conjunct2, THEN conjunct2, THEN conjunct2, THEN conjunct2, THEN conjunct2,
         THEN conjunct1] w
  have c5: "python_calls (snd (publicConsultar_interleaved digest0 no_faults 1000 1001 1002 1003 PyOk PyOk
        ''203.0.113.7'' ''fp_live'' ruc0 world_usage)) = [(''fp_live'', ruc0), (''fp_live'', ruc0)]"
    by simp
  from T[THEN conjunct2, THEN conjunct2, THEN conjunct2, THEN conjunct2, THEN conjunct2,
         THEN conjunct2, THEN conjunct2, THEN conjunct2] s w nq cu ex key
  have c6: "validateAPIToken digest0 no_faults 1000 (api_request (Some ''fp_live'')) world_usage
     = (Next \<lparr>ac_apiToken = ?t, ac_user = \<lparr>uc_id = 1, uc_rol = ''cliente''\<rparr>\<rparr>,
        world_usage\<lparr>api_tokens := [touched 1000 (api_request (Some ''fp_live'')) ?t]\<rparr>)"
    by (simp add: token_row_def usuario_activo_def)
  show ?thesis by (intro conjI c1 c2 c3 c4 c5 c6)
qed

text \<open>
  C2 as stated fails. On \<open>world_usage\<close> the owner's counter for the day reads 0; the
  request is admitted on the public endpoint, and again through validateAPIToken, and the
  counter still reads 0 afterwards (validateAPIToken leaves the token's count at 0 as
  well). And the check is not one operation with the update: on \<open>world_one\<close>, ceiling
  1 and nothing used, two requests whose checks both run before either update are both
  answered 200 and both handed to the downstream service, and the token ends with 2 used
  of 1.
\<close>

theorem admission_owner_counter_counterexample:
  "currentUsage world_usage 1 (today 1000) = 0
   \<and> python_calls (snd (publicConsultar digest0 no_faults 1000 PyOk ''203.0.113.7'' ''fp_live'' ruc0 world_usage))
       = [(''fp_live'', ruc0)]
   \<and> currentUsage (snd (publicConsultar digest0 no_faults 1000 PyOk ''203.0.113.7'' ''fp_live'' ruc0 world_usage))
        1 (today 1000) = 0
   \<and> is_Next (fst (validateAPIToken digest0 no_faults 1000 (api_request (Some ''fp_live'')) world_usage))
   \<and> currentUsage (snd (validateAPIToken digest0 no_faults 1000 (api_request (Some ''fp_live'')) world_usage))
        1 (today 1000) = 0
   \<and> map at_requests_utilizados_hoy (api_tokens
        (snd (validateAPIToken digest0 no_faults 1000 (api_request (Some ''fp_live'')) world_usage))) = [0]
   \<and> map (\<lambda>t. (at_requests_utilizados_hoy t, at_limite_requests_diario t)) (api_tokens world_one)
       = [(0, 1)]
   \<and> fst (publicConsultar_interleaved digest0 no_faults 1000 1001 1002 1003 PyOk PyOk
        ''203.0.113.7'' ''fp_live'' ruc0 world_one)
       = [(200, ConsultaData 0 1), (200, ConsultaData 0 1)]
   \<and> python_calls (snd (publicConsultar_interleaved digest0 no_faults 1000 1001 1002 1003 PyOk PyOk
        ''203.0.113.7'' ''fp_live'' ruc0 world_one))
       = [(''fp_live'', ruc0), (''fp_live'', ruc0)]
   \<and> map (\<lambda>t. (at_requests_utilizados_hoy t, at_limite_requests_diario t))
        (api_tokens (snd (publicConsultar_interleaved digest0 no_faults 1000 1001 1002 1003 PyOk PyOk
           ''203.0.113.7'' ''fp_live'' ruc0 world_one)))
       = [(2, 1)]"
  by (simp add: eval_defs validateAPIToken_def validateAPIToken_auth_def lookup_token_def
        validateAPIToken_quota_def expired_def currentUsage_def today_def is_Next_def
        publicConsultar_interleaved_def publicConsultar_check_def publicConsultar_resume_def
        publicConsultar_charge_def
        world_usage_def world_quota_def world_one_def ruc0_def example_defs)

subsection \<open>Issuing a token and authenticating with it\<close>















end
